theory Spec2Isabelle
  imports Complex_Main
begin

section \<open>Strings as the renderer uses them\<close>

text \<open>
  A JavaScript string is a sequence of code units; the model writes it as a
  \<^typ>\<open>string\<close> and \<open>length\<close> is the \<open>.length\<close> of the source. The white
  space that \<open>String.prototype.trim\<close> removes is, within the characters of
  \<^typ>\<open>char\<close>: tab, line feed, vertical tab, form feed, carriage return, space and
  the no-break space.
\<close>

definition NL :: char where
  "NL = CHR 0x0A"

definition is_space :: "char \<Rightarrow> bool" where
  "is_space c = (c = CHR 0x09 \<or> c = CHR 0x0A \<or> c = CHR 0x0B \<or> c = CHR 0x0C
                 \<or> c = CHR 0x0D \<or> c = CHR 0x20 \<or> c = CHR 0xA0)"

definition trim :: "string \<Rightarrow> string" where
  "trim s = rev (dropWhile is_space (rev (dropWhile is_space s)))"

text \<open>\<open>s.replace(/\n/g, ' ')\<close>: every line feed becomes a space.\<close>

definition flatten_newlines :: "string \<Rightarrow> string" where
  "flatten_newlines s = map (\<lambda>c. if c = NL then CHR 0x20 else c) s"

section \<open>The document snapshot (the fields of the API's JSON that the code reads)\<close>

text \<open>
  An optional field of the JSON is an \<open>option\<close>; a field the code only tests for
  presence (\<open>bullet\<close>, \<open>sectionBreak\<close>) or for truth (\<open>bold\<close>, \<open>italic\<close>, ...)
  is a \<open>bool\<close>.
\<close>

record Link =
  url :: "string option"

record TextStyle =
  bold :: bool
  italic :: bool
  underline :: bool
  strikethrough :: bool
  link :: "Link option"

record TextRun =
  content :: "string option"
  textStyle :: "TextStyle option"

record ParagraphElement =
  textRun :: "TextRun option"

text \<open>
  \<open>namedStyleType\<close> is one of the API's style names. \<open>HEADING n\<close> stands for the name
  \<open>HEADING_\<close> followed by the decimal numeral of \<open>n\<close> (what \<open>parseInt\<close> reads back;
  a name on which \<open>parseInt\<close> gives \<open>NaN\<close> repeats the hash zero times, as
  \<open>HEADING 0\<close> does); \<open>OTHER_STYLE\<close> for every name that is neither a heading,
  \<open>TITLE\<close> nor \<open>SUBTITLE\<close> (\<open>NORMAL_TEXT\<close>, ...). The API issues no name with a
  negative number, and the model has none.
\<close>

datatype NamedStyleType = HEADING nat | TITLE | SUBTITLE | OTHER_STYLE

record ParagraphStyle =
  namedStyleType :: "NamedStyleType option"

record Paragraph =
  paragraphStyle :: "ParagraphStyle option"
  bullet :: bool
  elements :: "ParagraphElement list option"

text \<open>
  A structural element carries a paragraph, a table or a section break; a table cell
  holds structural elements again, so tables nest.
\<close>

datatype StructuralElement =
  StructuralElement (el_paragraph: "Paragraph option") (el_table: "Table option")
    (el_sectionBreak: bool)
and Table = Table (tableRows: "TableRow list option")
and TableRow = TableRow (tableCells: "TableCell list option")
and TableCell = TableCell (cell_content: "StructuralElement list option")

record Body =
  body_content :: "StructuralElement list option"

record Document =
  body :: "Body option"

section \<open>server-http.ts: the Markdown renderer\<close>

text \<open>\<open>convertTextRunToMarkdown\<close>: the run's text, reassigned by each style test in turn.\<close>

definition convertTextRunToMarkdown :: "TextRun \<Rightarrow> string" where
  "convertTextRunToMarkdown run =
     (let text0 = (case content run of None \<Rightarrow> [] | Some c \<Rightarrow> c) in
      case textStyle run of
        None \<Rightarrow> text0
      | Some style \<Rightarrow>
          (let text1 = (if bold style \<and> italic style then ''***'' @ text0 @ ''***''
                        else if bold style then ''**'' @ text0 @ ''**''
                        else if italic style then ''*'' @ text0 @ ''*''
                        else text0);
               text2 = (if underline style \<and> link style = None
                        then ''<u>'' @ text1 @ ''</u>'' else text1);
               text3 = (if strikethrough style then ''~~'' @ text2 @ ''~~'' else text2)
           in case link style of
                None \<Rightarrow> text3
              | Some l \<Rightarrow>
                  (case url l of
                     None \<Rightarrow> text3
                   | Some u \<Rightarrow> if u = [] then text3
                               else ''['' @ text3 @ '']('' @ u @ '')'')))"

text \<open>\<open>convertParagraphToMarkdown\<close>.\<close>

definition heading_of :: "Paragraph \<Rightarrow> bool \<times> nat" where
  "heading_of p =
     (case paragraphStyle p of
        None \<Rightarrow> (False, 0)
      | Some ps \<Rightarrow>
          (case namedStyleType ps of
             None \<Rightarrow> (False, 0)
           | Some (HEADING n) \<Rightarrow> (True, n)
           | Some TITLE \<Rightarrow> (True, 1)
           | Some SUBTITLE \<Rightarrow> (True, 2)
           | Some OTHER_STYLE \<Rightarrow> (False, 0)))"

definition paragraph_text :: "Paragraph \<Rightarrow> string" where
  "paragraph_text p =
     (case elements p of
        None \<Rightarrow> []
      | Some es \<Rightarrow>
          foldl (\<lambda>acc e. case textRun e of
                            None \<Rightarrow> acc
                          | Some r \<Rightarrow> acc @ convertTextRunToMarkdown r) [] es)"

definition convertParagraphToMarkdown :: "Paragraph \<Rightarrow> string" where
  "convertParagraphToMarkdown p =
     (let (isHeading, headingLevel) = heading_of p;
          isList = bullet p;
          txt = paragraph_text p
      in if isHeading \<and> trim txt \<noteq> []
           then replicate (min headingLevel 6) (CHR ''#'') @ '' '' @ trim txt @ [NL, NL]
         else if isList \<and> trim txt \<noteq> [] then ''- '' @ trim txt @ [NL]
         else if trim txt \<noteq> [] then trim txt @ [NL, NL]
         else [NL])"

text \<open>
  \<open>convertTableToMarkdown\<close>. The cell loop reads only \<open>element.paragraph.elements\<close> of
  the elements of the cell; a run contributes when its content is a non-empty string.
\<close>

definition cell_run_step :: "string \<Rightarrow> ParagraphElement \<Rightarrow> string" where
  "cell_run_step cellText pe =
     (case textRun pe of
        None \<Rightarrow> cellText
      | Some r \<Rightarrow>
          (case content r of
             None \<Rightarrow> cellText
           | Some c \<Rightarrow> if c = [] then cellText
                       else cellText @ trim (flatten_newlines c)))"

definition cell_element_step :: "string \<Rightarrow> StructuralElement \<Rightarrow> string" where
  "cell_element_step cellText el =
     (case el_paragraph el of
        None \<Rightarrow> cellText
      | Some p \<Rightarrow>
          (case elements p of
             None \<Rightarrow> cellText
           | Some pes \<Rightarrow> foldl cell_run_step cellText pes))"

definition cell_text :: "TableCell \<Rightarrow> string" where
  "cell_text cell =
     (case cell_content cell of
        None \<Rightarrow> []
      | Some els \<Rightarrow> foldl cell_element_step [] els)"

definition row_text :: "TableCell list \<Rightarrow> string" where
  "row_text cells = foldl (\<lambda>rowText cell. rowText @ '' '' @ cell_text cell @ '' |'') ''|'' cells"

text \<open>The \<open>for\<close> loop that builds the separator, one \<open>' --- |'\<close> per cell of the row.\<close>

fun separator_loop :: "nat \<Rightarrow> string \<Rightarrow> string" where
  "separator_loop 0 separator = separator"
| "separator_loop (Suc n) separator = separator_loop n (separator @ '' --- |'')"

definition table_row_step :: "string \<times> bool \<Rightarrow> TableRow \<Rightarrow> string \<times> bool" where
  "table_row_step st row =
     (case st of (markdown, isFirstRow) \<Rightarrow>
        (case tableCells row of
           None \<Rightarrow> (markdown, isFirstRow)
         | Some cells \<Rightarrow>
             (let markdown1 = markdown @ row_text cells @ [NL] in
              if isFirstRow
              then (markdown1 @ separator_loop (length cells) ''|'' @ [NL], False)
              else (markdown1, isFirstRow))))"

definition convertTableToMarkdown :: "Table \<Rightarrow> string" where
  "convertTableToMarkdown t =
     (case tableRows t of
        None \<Rightarrow> []
      | Some rows \<Rightarrow>
          if rows = [] then []
          else fst (foldl table_row_step ([NL], True) rows) @ [NL])"

text \<open>\<open>convertDocsJsonToMarkdown\<close>.\<close>

definition doc_element_step :: "string \<Rightarrow> StructuralElement \<Rightarrow> string" where
  "doc_element_step markdown el =
     (case el_paragraph el of
        Some p \<Rightarrow> markdown @ convertParagraphToMarkdown p
      | None \<Rightarrow>
          (case el_table el of
             Some t \<Rightarrow> markdown @ convertTableToMarkdown t
           | None \<Rightarrow> if el_sectionBreak el then markdown @ [NL] @ ''---'' @ [NL, NL]
                     else markdown))"

definition convertDocsJsonToMarkdown :: "Document \<Rightarrow> string" where
  "convertDocsJsonToMarkdown docData =
     (case body docData of
        None \<Rightarrow> ''Document appears to be empty.''
      | Some b \<Rightarrow>
          (case body_content b of
             None \<Rightarrow> ''Document appears to be empty.''
           | Some els \<Rightarrow> trim (foldl doc_element_step [] els)))"

section \<open>Numbers and JSON values as JavaScript prints and tests them\<close>

text \<open>The decimal numeral of a number, as a template literal prints it.\<close>

definition digit :: "nat \<Rightarrow> char" where
  "digit d = ''0123456789'' ! d"

function decimal :: "nat \<Rightarrow> string" where
  "decimal n = (if 10 \<le> n then decimal (n div 10) @ [digit (n mod 10)] else [digit n])"
  by pat_completeness auto
termination
  by (relation "measure id") auto

declare decimal.simps [simp del]

text \<open>
  A JavaScript number is written as a rational. A safe integer (a whole number of
  magnitude at most \<open>2^53 - 1\<close>) prints as its decimal numeral, with its sign;
  how the engine prints any other number (\<open>2.5\<close>, the rounded digits of a larger
  whole number, the exponent form from \<open>1e21\<close> on) is a parameter, the engine's
  \<open>Number.prototype.toString\<close>.
\<close>

definition safe_integer :: "rat \<Rightarrow> bool" where
  "safe_integer m = (of_int \<lfloor>m\<rfloor> = m \<and> \<bar>m\<bar> \<le> 9007199254740991)"

definition number_text :: "(rat \<Rightarrow> string) \<Rightarrow> rat \<Rightarrow> string" where
  "number_text toString m =
     (if safe_integer m
      then (if 0 \<le> m then decimal (nat \<lfloor>m\<rfloor>) else CHR ''-'' # decimal (nat (- \<lfloor>m\<rfloor>)))
      else toString m)"

text \<open>
  A value that \<open>JSON.parse\<close> or a request body yields. Its numbers are the whole
  numbers; an object is its list of own properties, each key once, looked up by key.
  \<open>undefined\<close> is the \<open>None\<close> of a \<open>json option\<close>.
\<close>

datatype json =
  JNull | JBool bool | JNum int | JStr string | JArr "json list"
  | JObj "(string \<times> json) list"

text \<open>What \<open>if (v)\<close>, \<open>!v\<close> and \<open>v || d\<close> test.\<close>

fun truthy_json :: "json \<Rightarrow> bool" where
  "truthy_json JNull = False"
| "truthy_json (JBool b) = b"
| "truthy_json (JNum n) = (n \<noteq> 0)"
| "truthy_json (JStr s) = (s \<noteq> [])"
| "truthy_json (JArr xs) = True"
| "truthy_json (JObj kvs) = True"

definition truthy :: "json option \<Rightarrow> bool" where
  "truthy v = (case v of None \<Rightarrow> False | Some j \<Rightarrow> truthy_json j)"

text \<open>\<open>a || b\<close> on values.\<close>

definition js_or :: "json option \<Rightarrow> json option \<Rightarrow> json option" where
  "js_or a b = (if truthy a then a else b)"

text \<open>What the code throws: an \<open>Error\<close>, the engine's \<open>TypeError\<close>, or fastmcp's \<open>UserError\<close>.\<close>

datatype thrown = Error string | TypeError string | UserError string

text \<open>
  How a template literal \<open>`${v}`\<close> and a property lookup \<open>o[v]\<close> turn a value
  into a string. An array is its elements joined by commas, \<open>null\<close> elements as the
  empty string. An object prints through the \<open>toString\<close> it inherits, unless it has a
  property \<open>toString\<close> of its own: that is a parsed value, not a function, and the
  conversion throws.
\<close>

fun join_with :: "string \<Rightarrow> string list \<Rightarrow> string" where
  "join_with sep [] = []"
| "join_with sep [x] = x"
| "join_with sep (x # y # ys) = x @ sep @ join_with sep (y # ys)"

definition not_primitive :: thrown where
  "not_primitive = TypeError ''Cannot convert object to primitive value''"

text \<open>The strings of a list of conversions, or the first throw among them.\<close>

fun collect :: "(thrown + string) list \<Rightarrow> thrown + string list" where
  "collect [] = Inr []"
| "collect (r # rs) =
     (case r of
        Inl e \<Rightarrow> Inl e
      | Inr x \<Rightarrow> (case collect rs of Inl e \<Rightarrow> Inl e | Inr xs \<Rightarrow> Inr (x # xs)))"

fun js_string :: "(rat \<Rightarrow> string) \<Rightarrow> json \<Rightarrow> thrown + string" where
  "js_string toString JNull = Inr ''null''"
| "js_string toString (JBool b) = Inr (if b then ''true'' else ''false'')"
| "js_string toString (JNum n) = Inr (number_text toString (of_int n))"
| "js_string toString (JStr s) = Inr s"
| "js_string toString (JArr xs) =
     (case collect (map (\<lambda>x. if x = JNull then Inr [] else js_string toString x) xs) of
        Inl e \<Rightarrow> Inl e
      | Inr parts \<Rightarrow> Inr (join_with '','' parts))"
| "js_string toString (JObj kvs) =
     (if ''toString'' \<in> fst ` set kvs then Inl not_primitive else Inr ''[object Object]'')"

definition template :: "(rat \<Rightarrow> string) \<Rightarrow> json option \<Rightarrow> thrown + string" where
  "template toString v = (case v of None \<Rightarrow> Inr ''undefined'' | Some j \<Rightarrow> js_string toString j)"

definition template_str :: "string option \<Rightarrow> string" where
  "template_str v = (case v of None \<Rightarrow> ''undefined'' | Some s \<Rightarrow> s)"

text \<open>\<open>error.message\<close> of what was thrown.\<close>

definition message_of :: "thrown \<Rightarrow> string" where
  "message_of e = (case e of Error m \<Rightarrow> m | TypeError m \<Rightarrow> m | UserError m \<Rightarrow> m)"

text \<open>
  Reading one of the properties the code names (\<open>installed\<close>, \<open>web\<close>, \<open>client_id\<close>,
  \<open>client_secret\<close>, \<open>redirect_uris\<close>, \<open>refresh_token\<close>) off a value: \<open>null\<close> throws,
  an object is looked up, any other value has no such property.
\<close>

definition get_prop :: "json \<Rightarrow> string \<Rightarrow> thrown + json option" where
  "get_prop v k =
     (case v of
        JNull \<Rightarrow>
          Inl (TypeError (''Cannot read properties of null (reading '' @ [CHR 0x27] @ k
                          @ [CHR 0x27] @ '')''))
      | JObj kvs \<Rightarrow> Inr (map_of kvs k)
      | _ \<Rightarrow> Inr None)"

text \<open>\<open>v[0]\<close> on a value that is not \<open>null\<close>.\<close>

definition index0 :: "json \<Rightarrow> json option" where
  "index0 v =
     (case v of
        JArr xs \<Rightarrow> (case xs of [] \<Rightarrow> None | x # _ \<Rightarrow> Some x)
      | JStr s \<Rightarrow> (case s of [] \<Rightarrow> None | c # _ \<Rightarrow> Some (JStr [c]))
      | JObj kvs \<Rightarrow> map_of kvs ''0''
      | _ \<Rightarrow> None)"

section \<open>auth-cloudrun.ts: credential resolution\<close>

text \<open>
  What the process can see: the two environment variables, the two files beside the
  project root (\<open>None\<close>: the read fails), whether \<open>token.json\<close> can be written, and how
  often the user has been asked for an authorization code on the terminal.
\<close>

record World =
  GOOGLE_CREDENTIALS :: "string option"
  GOOGLE_TOKEN :: "string option"
  credentials_file :: "string option"
  token_file :: "string option"
  token_file_writable :: bool
  questions :: nat

text \<open>
  The library functions the module calls, as parameters: \<open>JSON.parse\<close> (\<open>None\<close>: it
  throws), \<open>JSON.stringify\<close>, and the outcome of the token exchange for the code the
  user types (\<open>None\<close>: \<open>getToken\<close> throws).
\<close>

record Platform =
  JSON_parse :: "string \<Rightarrow> json option"
  JSON_stringify :: "json \<Rightarrow> string"
  getToken :: "json option"

text \<open>\<open>process.env.X\<close> in a condition: set and not the empty string.\<close>

definition env_set :: "string option \<Rightarrow> bool" where
  "env_set v = (case v of None \<Rightarrow> False | Some s \<Rightarrow> s \<noteq> [])"

definition env_text :: "string option \<Rightarrow> string" where
  "env_text v = (case v of None \<Rightarrow> [] | Some s \<Rightarrow> s)"

text \<open>Parsing the two texts of one source; a throw of either \<open>JSON.parse\<close> is \<open>None\<close>.\<close>

definition parse_pair :: "Platform \<Rightarrow> string \<Rightarrow> string \<Rightarrow> (json \<times> json) option" where
  "parse_pair P c t =
     (case JSON_parse P c of
        None \<Rightarrow> None
      | Some credentials \<Rightarrow>
          (case JSON_parse P t of
             None \<Rightarrow> None
           | Some token \<Rightarrow> Some (credentials, token)))"

definition load_from_files :: "Platform \<Rightarrow> World \<Rightarrow> (json \<times> json) option" where
  "load_from_files P w =
     (case credentials_file w of
        None \<Rightarrow> None
      | Some credContent \<Rightarrow>
          (case token_file w of
             None \<Rightarrow> None
           | Some tokenContent \<Rightarrow> parse_pair P credContent tokenContent))"

definition loadCredentialsFromEnvOrFile :: "Platform \<Rightarrow> World \<Rightarrow> (json \<times> json) option" where
  "loadCredentialsFromEnvOrFile P w =
     (if env_set (GOOGLE_CREDENTIALS w) \<and> env_set (GOOGLE_TOKEN w) then
        (case parse_pair P (env_text (GOOGLE_CREDENTIALS w))
                (env_text (GOOGLE_TOKEN w)) of
           Some pair \<Rightarrow> Some pair
         | None \<Rightarrow> load_from_files P w)
      else load_from_files P w)"

text \<open>
  The client that \<open>new google.auth.OAuth2(id, secret, redirect)\<close> and \<open>setCredentials\<close>
  build. The token introspection that follows in \<open>loadSavedCredentialsIfExist\<close> is only
  logged, whatever its outcome, and is not part of the model.
\<close>

record OAuth2Client =
  client_id :: "json option"
  client_secret :: "json option"
  redirect_uri :: "json option"
  credentials :: json

definition oob :: json where
  "oob = JStr ''urn:ietf:wg:oauth:2.0:oob''"

text \<open>\<open>keys.installed || keys.web\<close>.\<close>

definition client_key :: "json \<Rightarrow> thrown + json option" where
  "client_key keys =
     (case get_prop keys ''installed'' of
        Inl e \<Rightarrow> Inl e
      | Inr inst \<Rightarrow>
          if truthy inst then Inr inst else get_prop keys ''web'')"

text \<open>\<open>key.k\<close> for a key that passed the truth test (so it is not \<open>null\<close>).\<close>

definition key_prop :: "json \<Rightarrow> string \<Rightarrow> json option" where
  "key_prop key k = (case get_prop key k of Inl _ \<Rightarrow> None | Inr v \<Rightarrow> v)"

definition optional_index0 :: "json option \<Rightarrow> json option" where
  "optional_index0 v =
     (case v of None \<Rightarrow> None | Some j \<Rightarrow> if j = JNull then None else index0 j)"

definition loadSavedCredentialsIfExist :: "Platform \<Rightarrow> World \<Rightarrow> OAuth2Client option" where
  "loadSavedCredentialsIfExist P w =
     (case loadCredentialsFromEnvOrFile P w of
        None \<Rightarrow> None
      | Some (creds, token) \<Rightarrow>
          (case client_key creds of
             Inl _ \<Rightarrow> None
           | Inr key \<Rightarrow>
               (case key of
                  None \<Rightarrow> None
                | Some k \<Rightarrow>
                    if \<not> truthy_json k then None
                    else Some \<lparr>client_id = key_prop k ''client_id'',
                               client_secret = key_prop k ''client_secret'',
                               redirect_uri =
                                 js_or (optional_index0 (key_prop k ''redirect_uris''))
                                   (Some oob),
                               credentials = token\<rparr>)))"

record ClientSecrets =
  cs_client_id :: "json option"
  cs_client_secret :: "json option"
  cs_redirect_uris :: "json option"
  cs_client_type :: string

definition loadClientSecrets :: "Platform \<Rightarrow> World \<Rightarrow> thrown + ClientSecrets" where
  "loadClientSecrets P w =
     (case loadCredentialsFromEnvOrFile P w of
        None \<Rightarrow> Inl (Error ''Could not load credentials from environment or files.'')
      | Some (keys, token) \<Rightarrow>
          (case client_key keys of
             Inl e \<Rightarrow> Inl e
           | Inr key \<Rightarrow>
               (case key of
                  None \<Rightarrow> Inl (Error ''Could not find client secrets in credentials.'')
                | Some k \<Rightarrow>
                    if \<not> truthy_json k
                    then Inl (Error ''Could not find client secrets in credentials.'')
                    else Inr \<lparr>cs_client_id = key_prop k ''client_id'',
                              cs_client_secret = key_prop k ''client_secret'',
                              cs_redirect_uris =
                                js_or (key_prop k ''redirect_uris'')
                                  (Some (JArr [JStr ''http://localhost:3000/''])),
                              cs_client_type =
                                (if truthy (key_prop keys ''web'') then ''web''
                                 else ''installed'')\<rparr>)))"

text \<open>
  \<open>saveCredentials\<close>: nothing is written when \<open>GOOGLE_CREDENTIALS\<close> is set; a failure
  to load the secrets or to write the file is caught and logged.
\<close>

definition token_payload :: "ClientSecrets \<Rightarrow> OAuth2Client \<Rightarrow> json" where
  "token_payload cs client =
     JObj ([(''type'', JStr ''authorized_user'')]
           @ (case cs_client_id cs of None \<Rightarrow> [] | Some v \<Rightarrow> [(''client_id'', v)])
           @ (case cs_client_secret cs of None \<Rightarrow> [] | Some v \<Rightarrow> [(''client_secret'', v)])
           @ (case key_prop (credentials client) ''refresh_token'' of
                None \<Rightarrow> [] | Some v \<Rightarrow> [(''refresh_token'', v)]))"

definition saveCredentials :: "Platform \<Rightarrow> OAuth2Client \<Rightarrow> World \<Rightarrow> World" where
  "saveCredentials P client w =
     (if env_set (GOOGLE_CREDENTIALS w) then w
      else case loadClientSecrets P w of
             Inl _ \<Rightarrow> w
           | Inr cs \<Rightarrow>
               if token_file_writable w
               then w\<lparr>token_file := Some (JSON_stringify P (token_payload cs client))\<rparr>
               else w)"

text \<open>
  \<open>authenticate\<close>: the interactive flow. Asking the question on the terminal is the
  step that counts in \<open>questions\<close>.
\<close>

definition authenticate :: "Platform \<Rightarrow> World \<Rightarrow> (thrown + OAuth2Client) \<times> World" where
  "authenticate P w =
     (if env_set (GOOGLE_CREDENTIALS w)
      then (Inl (Error ''Cannot run interactive authentication in Cloud Run environment.''), w)
      else case loadClientSecrets P w of
             Inl e \<Rightarrow> (Inl e, w)
           | Inr cs \<Rightarrow>
               (let redirectUri =
                      (if cs_client_type cs = ''web''
                       then optional_index0 (cs_redirect_uris cs) else Some oob);
                    w1 = w\<lparr>questions := questions w + 1\<rparr>
                in case getToken P of
                     None \<Rightarrow> (Inl (Error ''Authentication failed''), w1)
                   | Some tokens \<Rightarrow>
                       (let client = \<lparr>client_id = cs_client_id cs,
                                       client_secret = cs_client_secret cs,
                                       redirect_uri = redirectUri,
                                       credentials = tokens\<rparr>
                        in case get_prop tokens ''refresh_token'' of
                             Inl _ \<Rightarrow> (Inl (Error ''Authentication failed''), w1)
                           | Inr r \<Rightarrow>
                               if truthy r then (Inr client, saveCredentials P client w1)
                               else (Inr client, w1))))"

definition authorize :: "Platform \<Rightarrow> World \<Rightarrow> (thrown + OAuth2Client) \<times> World" where
  "authorize P w =
     (let isCloudRun = env_set (GOOGLE_CREDENTIALS w) in
      case loadSavedCredentialsIfExist P w of
        Some client \<Rightarrow> (Inr client, w)
      | None \<Rightarrow>
          if isCloudRun
          then (Inl (Error (''No valid credentials found in Cloud Run environment. ''
                            @ ''Please check Secret Manager configuration.'')), w)
          else authenticate P w)"

section \<open>server-http.ts: the cached client\<close>

text \<open>
  \<open>google.docs({version, auth})\<close> and \<open>google.drive({version, auth})\<close> wrap the
  authorization client they are given. The three module variables start as \<open>null\<close>.
\<close>

datatype Docs = Docs OAuth2Client

datatype Drive = Drive OAuth2Client

record ClientState =
  authClient :: "OAuth2Client option"
  googleDocs :: "Docs option"
  googleDrive :: "Drive option"

type_synonym Clients = "OAuth2Client option \<times> Docs \<times> Drive"

definition no_clients :: ClientState where
  "no_clients = \<lparr>authClient = None, googleDocs = None, googleDrive = None\<rparr>"

text \<open>\<open>googleDocs && googleDrive\<close>, and the triple that is returned when both are set.\<close>

definition cached_clients :: "ClientState \<Rightarrow> Clients option" where
  "cached_clients s =
     (case googleDocs s of
        None \<Rightarrow> None
      | Some d \<Rightarrow>
          (case googleDrive s of
             None \<Rightarrow> None
           | Some r \<Rightarrow> Some (authClient s, d, r)))"

definition fill_docs :: "ClientState \<Rightarrow> ClientState" where
  "fill_docs s =
     (case authClient s of
        None \<Rightarrow> s
      | Some c \<Rightarrow> if googleDocs s = None then s\<lparr>googleDocs := Some (Docs c)\<rparr> else s)"

definition fill_drive :: "ClientState \<Rightarrow> ClientState" where
  "fill_drive s =
     (case authClient s of
        None \<Rightarrow> s
      | Some c \<Rightarrow> if googleDrive s = None then s\<lparr>googleDrive := Some (Drive c)\<rparr> else s)"

definition initializeGoogleClient_http ::
  "Platform \<Rightarrow> ClientState \<times> World \<Rightarrow> (thrown + Clients) \<times> ClientState \<times> World" where
  "initializeGoogleClient_http P sw =
     (case sw of (s, w) \<Rightarrow>
        (case cached_clients s of
           Some h \<Rightarrow> (Inr h, s, w)
         | None \<Rightarrow>
             (case (case authClient s of
                      Some _ \<Rightarrow> Inr (s, w)
                    | None \<Rightarrow>
                        (case authorize P w of
                           (Inl _, w') \<Rightarrow> Inl w'
                         | (Inr client, w') \<Rightarrow>
                             Inr (\<lparr>authClient = Some client,
                                   googleDocs = Some (Docs client),
                                   googleDrive = Some (Drive client)\<rparr>, w'))) of
                Inl w' \<Rightarrow>
                  (Inl (Error (''Google client initialization failed. ''
                               @ ''Cannot start server tools.'')), no_clients, w')
              | Inr (s1, w1) \<Rightarrow>
                  (let s3 = fill_drive (fill_docs s1) in
                   case cached_clients s3 of
                     None \<Rightarrow>
                       (Inl (Error ''Google Docs and Drive clients could not be initialized.''),
                        s3, w1)
                   | Some h \<Rightarrow> (Inr h, s3, w1)))))"

section \<open>rest-api-wrapper.ts: the cached client\<close>

definition initializeGoogleClient_rest ::
  "Platform \<Rightarrow> ClientState \<times> World \<Rightarrow> (thrown + Clients) \<times> ClientState \<times> World" where
  "initializeGoogleClient_rest P sw =
     (case sw of (s, w) \<Rightarrow>
        (case cached_clients s of
           Some h \<Rightarrow> (Inr h, s, w)
         | None \<Rightarrow>
             (case authorize P w of
                (Inl e, w') \<Rightarrow> (Inl e, s, w')
              | (Inr client, w') \<Rightarrow>
                  (Inr (Some client, Docs client, Drive client),
                   \<lparr>authClient = Some client, googleDocs = Some (Docs client),
                    googleDrive = Some (Drive client)\<rparr>, w'))))"

section \<open>The upstream API\<close>

text \<open>
  The calls of the googleapis client are parameters of the model: each either rejects
  with an error that may carry a \<open>code\<close> and a \<open>message\<close>, or resolves with the data.
  So are the functions of the engine that the tools lean on: \<open>JSON.stringify\<close> of a
  document, the ISO date of the moment so many days back (\<open>None\<close> for the days: the
  number is \<open>NaN\<close>; \<open>None\<close> for the date: \<open>toISOString\<close> throws its
  \<open>RangeError\<close>), \<open>toLocaleString\<close> of a date text, the number a string
  converts to (\<open>None\<close>: \<open>NaN\<close>), and the printing of numbers.
\<close>

record ApiError =
  err_code :: "json option"
  err_message :: "string option"

record Created =
  created_documentId :: "string option"
  created_title :: "string option"

record DriveFile =
  file_id :: "string option"
  file_name :: "string option"
  modifiedTime :: "string option"
  owner_names :: "string option list option"
  webViewLink :: "string option"

record ListRequest =
  q :: string
  orderBy :: "string option"
  pageSize :: json
  list_fields :: string

record Upstream =
  documents_get :: "Docs \<Rightarrow> json option \<Rightarrow> string option \<Rightarrow> ApiError + Document"
  documents_create :: "Docs \<Rightarrow> json \<Rightarrow> ApiError + Created"
  files_list :: "Drive \<Rightarrow> ListRequest \<Rightarrow> ApiError + DriveFile list option"
  stringify_document :: "Document \<Rightarrow> string"
  cutoff_iso :: "int option \<Rightarrow> string option"
  toLocaleString :: "string \<Rightarrow> string"
  StringToNumber :: "string \<Rightarrow> int option"
  Number_toString :: "rat \<Rightarrow> string"

section \<open>server-http.ts: the readGoogleDoc tool\<close>

datatype Format = Text | Json | Markdown

text \<open>The arguments after fastmcp has parsed them with the tool's schema.\<close>

record ReadArgs =
  documentId :: string
  format :: Format
  maxLength :: "rat option"

text \<open>\<open>args.maxLength && totalLength > args.maxLength\<close>.\<close>

definition exceeds :: "rat option \<Rightarrow> nat \<Rightarrow> bool" where
  "exceeds m totalLength =
     (case m of None \<Rightarrow> False | Some k \<Rightarrow> k \<noteq> 0 \<and> k < of_nat totalLength)"

text \<open>
  \<open>s.substring(0, k)\<close>: the fraction of \<open>k\<close> is dropped and a negative \<open>k\<close>
  counts as 0.
\<close>

definition substring0 :: "string \<Rightarrow> rat \<Rightarrow> string" where
  "substring0 s k = take (nat \<lfloor>k\<rfloor>) s"

definition limit_of :: "rat option \<Rightarrow> rat" where
  "limit_of m = (case m of None \<Rightarrow> 0 | Some k \<Rightarrow> k)"

text \<open>The plain-text loop over the body: paragraphs, and the paragraphs of table cells.\<close>

definition text_run_step :: "string \<Rightarrow> ParagraphElement \<Rightarrow> string" where
  "text_run_step textContent pe =
     (case textRun pe of
        None \<Rightarrow> textContent
      | Some r \<Rightarrow>
          (case content r of
             None \<Rightarrow> textContent
           | Some c \<Rightarrow> if c = [] then textContent else textContent @ c))"

definition text_paragraph_step :: "string \<Rightarrow> StructuralElement \<Rightarrow> string" where
  "text_paragraph_step textContent el =
     (case el_paragraph el of
        None \<Rightarrow> textContent
      | Some p \<Rightarrow>
          (case elements p of
             None \<Rightarrow> textContent
           | Some pes \<Rightarrow> foldl text_run_step textContent pes))"

definition text_cell_step :: "string \<Rightarrow> TableCell \<Rightarrow> string" where
  "text_cell_step textContent cell =
     (case cell_content cell of
        None \<Rightarrow> textContent
      | Some ces \<Rightarrow> foldl text_paragraph_step textContent ces)"

definition text_row_step :: "string \<Rightarrow> TableRow \<Rightarrow> string" where
  "text_row_step textContent row =
     (case tableCells row of
        None \<Rightarrow> textContent
      | Some cells \<Rightarrow> foldl text_cell_step textContent cells)"

definition text_element_step :: "string \<Rightarrow> StructuralElement \<Rightarrow> string" where
  "text_element_step textContent el =
     (let t1 = text_paragraph_step textContent el in
      case el_table el of
        None \<Rightarrow> t1
      | Some t \<Rightarrow>
          (case tableRows t of
             None \<Rightarrow> t1
           | Some rows \<Rightarrow> foldl text_row_step t1 rows))"

definition document_text :: "Document \<Rightarrow> string" where
  "document_text d =
     (case body d of
        None \<Rightarrow> []
      | Some b \<Rightarrow>
          (case body_content b of
             None \<Rightarrow> []
           | Some els \<Rightarrow> foldl text_element_step [] els))"

text \<open>The three ways the fetched document is turned into the tool's answer.\<close>

definition respond_json :: "Upstream \<Rightarrow> rat option \<Rightarrow> Document \<Rightarrow> string" where
  "respond_json U m d =
     (let jsonContent = stringify_document U d in
      if exceeds m (length jsonContent)
      then substring0 jsonContent (limit_of m) @ [NL] @ ''... [JSON truncated: ''
           @ decimal (length jsonContent) @ '' total chars]''
      else jsonContent)"

definition respond_markdown :: "Upstream \<Rightarrow> rat option \<Rightarrow> Document \<Rightarrow> string" where
  "respond_markdown U m d =
     (let markdownContent = convertDocsJsonToMarkdown d;
          totalLength = length markdownContent
      in if exceeds m totalLength
         then substring0 markdownContent (limit_of m) @ [NL, NL]
              @ ''... [Markdown truncated to '' @ number_text (Number_toString U) (limit_of m)
              @ '' chars of ''
              @ decimal totalLength @ '' total.]''
         else markdownContent)"

definition respond_text :: "Upstream \<Rightarrow> rat option \<Rightarrow> Document \<Rightarrow> string" where
  "respond_text U m d =
     (let textContent = document_text d in
      if trim textContent = [] then ''Document found, but appears empty.''
      else
        (let totalLength = length textContent in
         if exceeds m totalLength
         then ''Content (truncated to '' @ number_text (Number_toString U) (limit_of m)
              @ '' chars):'' @ [NL]
              @ ''---'' @ [NL] @ substring0 textContent (limit_of m) @ [NL, NL] @ ''...''
         else ''Content ('' @ decimal totalLength @ '' characters):'' @ [NL]
              @ ''---'' @ [NL] @ textContent))"

definition readGoogleDoc_respond :: "Upstream \<Rightarrow> ReadArgs \<Rightarrow> Document \<Rightarrow> string" where
  "readGoogleDoc_respond U args d =
     (case format args of
        Json \<Rightarrow> respond_json U (maxLength args) d
      | Markdown \<Rightarrow> respond_markdown U (maxLength args) d
      | Text \<Rightarrow> respond_text U (maxLength args) d)"

text \<open>\<open>error.message || 'Unknown error'\<close>.\<close>

definition message_or_unknown :: "ApiError \<Rightarrow> string" where
  "message_or_unknown e =
     (case err_message e of
        None \<Rightarrow> ''Unknown error''
      | Some msg \<Rightarrow> if msg = [] then ''Unknown error'' else msg)"

text \<open>The \<open>catch\<close> of the tool: what is thrown for an error of the upstream call.\<close>

definition readGoogleDoc_catch :: "ReadArgs \<Rightarrow> ApiError \<Rightarrow> thrown" where
  "readGoogleDoc_catch args e =
     (if err_code e = Some (JNum 404)
      then UserError (''Doc not found (ID: '' @ documentId args @ '').'')
      else if err_code e = Some (JNum 403)
      then UserError (''Permission denied for doc (ID: '' @ documentId args @ '').'')
      else UserError (''Failed to read doc: '' @ message_or_unknown e))"

definition read_fields :: "Format \<Rightarrow> string" where
  "read_fields f =
     (if f = Json \<or> f = Markdown then ''*''
      else ''body(content(paragraph(elements(textRun(content)))))'')"

definition readGoogleDoc_execute ::
  "Platform \<Rightarrow> Upstream \<Rightarrow> ReadArgs \<Rightarrow> ClientState \<times> World
     \<Rightarrow> (thrown + string) \<times> ClientState \<times> World" where
  "readGoogleDoc_execute P U args sw =
     (case initializeGoogleClient_http P sw of
        (Inl e, sw') \<Rightarrow> (Inl e, sw')
      | (Inr (a, docs, drive), sw') \<Rightarrow>
          (case documents_get U docs (Some (JStr (documentId args)))
                  (Some (read_fields (format args))) of
             Inl e \<Rightarrow> (Inl (readGoogleDoc_catch args e), sw')
           | Inr d \<Rightarrow> (Inr (readGoogleDoc_respond U args d), sw')))"

section \<open>rest-api-wrapper.ts: the tools and the generic call endpoint\<close>

text \<open>
  A tool receives \<open>toolArgs || {}\<close>, a value that is never \<open>null\<close>; a destructured
  field is the property of that name, \<open>undefined\<close> when the value is not an object or
  has no such property.
\<close>

definition arg :: "json \<Rightarrow> string \<Rightarrow> json option" where
  "arg args k = key_prop args k"

text \<open>A destructuring default: it applies to \<open>undefined\<close> only.\<close>

definition with_default :: "json option \<Rightarrow> json \<Rightarrow> json" where
  "with_default v d = (case v of None \<Rightarrow> d | Some j \<Rightarrow> j)"

definition first_owner :: "DriveFile \<Rightarrow> string" where
  "first_owner f =
     (case owner_names f of
        None \<Rightarrow> ''Unknown''
      | Some os \<Rightarrow>
          (case os of
             [] \<Rightarrow> ''Unknown''
           | n # _ \<Rightarrow>
               (case n of None \<Rightarrow> ''Unknown''
                | Some s \<Rightarrow> if s = [] then ''Unknown'' else s)))"

definition format_file :: "Upstream \<Rightarrow> nat \<Rightarrow> DriveFile \<Rightarrow> string" where
  "format_file U index f =
     decimal (index + 1) @ ''. **'' @ template_str (file_name f) @ ''**'' @ [NL]
     @ ''   ID: '' @ template_str (file_id f) @ [NL]
     @ ''   Last Modified: ''
     @ toLocaleString U (case modifiedTime f of None \<Rightarrow> [] | Some t \<Rightarrow> t)
     @ '' by '' @ first_owner f @ [NL]
     @ ''   Link: '' @ template_str (webViewLink f)"

definition format_files :: "Upstream \<Rightarrow> DriveFile list option \<Rightarrow> string" where
  "format_files U files =
     (let docs = (case files of None \<Rightarrow> [] | Some fs \<Rightarrow> fs) in
      join_with [NL, NL] (map (\<lambda>(i, f). format_file U i f) (zip [0 ..< length docs] docs)))"

definition doc_mime :: string where
  "doc_mime = ''mimeType='' @ [CHR 0x27] @ ''application/vnd.google-apps.document'' @ [CHR 0x27]"

text \<open>
  The number a value counts as in \<open>getDate() - daysBack\<close>, \<open>length > maxLength\<close>
  and \<open>substring(0, maxLength)\<close>; \<open>None\<close> is \<open>NaN\<close>. An array or object is
  first turned into a string, which may throw.
\<close>

definition to_number :: "Upstream \<Rightarrow> json \<Rightarrow> thrown + int option" where
  "to_number U v =
     (case v of
        JNum n \<Rightarrow> Inr (Some n)
      | JBool b \<Rightarrow> Inr (Some (if b then 1 else 0))
      | JNull \<Rightarrow> Inr (Some 0)
      | JStr s \<Rightarrow> Inr (StringToNumber U s)
      | _ \<Rightarrow>
          (case js_string (Number_toString U) v of
             Inl e \<Rightarrow> Inl e
           | Inr s \<Rightarrow> Inr (StringToNumber U s)))"

text \<open>
  Each tool runs in a \<open>try\<close> whose \<open>catch\<close> throws a new \<open>Error\<close>: the tool's
  prefix and the message of what was caught.
\<close>

definition rethrow :: "string \<Rightarrow> thrown \<Rightarrow> thrown + string" where
  "rethrow prefix e = Inl (Error (prefix @ message_of e))"

definition getRecentGoogleDocs :: "Upstream \<Rightarrow> Drive \<Rightarrow> json \<Rightarrow> thrown + string" where
  "getRecentGoogleDocs U drive args =
     (let maxResults = with_default (arg args ''maxResults'') (JNum 10);
          daysBack = with_default (arg args ''daysBack'') (JNum 30)
      in case to_number U daysBack of
           Inl e \<Rightarrow> rethrow ''Failed to get recent docs: '' e
         | Inr days \<Rightarrow>
             (case cutoff_iso U days of
                None \<Rightarrow> Inl (Error ''Failed to get recent docs: Invalid time value'')
              | Some cutoff \<Rightarrow>
                  (case files_list U drive
                          \<lparr>q = doc_mime @ '' and modifiedTime >= '' @ [CHR 0x27] @ cutoff
                                @ [CHR 0x27],
                           orderBy = Some ''modifiedTime desc'',
                           pageSize = maxResults,
                           list_fields = ''files(id,name,modifiedTime,owners,webViewLink)''\<rparr> of
                     Inl e \<Rightarrow>
                       Inl (Error (''Failed to get recent docs: ''
                                   @ template_str (err_message e)))
                   | Inr files \<Rightarrow>
                       (case js_string (Number_toString U) daysBack of
                          Inl e \<Rightarrow> rethrow ''Failed to get recent docs: '' e
                        | Inr days_text \<Rightarrow>
                            Inr (''Recently modified Google Document(s) (last '' @ days_text
                                 @ '' days):'' @ [NL, NL] @ format_files U files)))))"

text \<open>The text loop of the wrapper's \<open>readGoogleDoc\<close>: top-level paragraphs only.\<close>

definition rest_run_step :: "string \<Rightarrow> ParagraphElement \<Rightarrow> string" where
  "rest_run_step textContent pe =
     (case textRun pe of
        None \<Rightarrow> textContent
      | Some r \<Rightarrow> textContent @ template_str (content r))"

definition rest_element_step :: "string \<Rightarrow> StructuralElement \<Rightarrow> string" where
  "rest_element_step textContent el =
     (case el_paragraph el of
        None \<Rightarrow> textContent
      | Some p \<Rightarrow>
          (case elements p of
             None \<Rightarrow> textContent
           | Some pes \<Rightarrow> foldl rest_run_step textContent pes))"

definition rest_document_text :: "Document \<Rightarrow> string" where
  "rest_document_text d =
     (case body d of
        None \<Rightarrow> []
      | Some b \<Rightarrow>
          (case body_content b of
             None \<Rightarrow> []
           | Some els \<Rightarrow> foldl rest_element_step [] els))"

text \<open>\<open>if (maxLength && textContent.length > maxLength)\<close> and the cut that follows.\<close>

definition rest_truncate :: "Upstream \<Rightarrow> json option \<Rightarrow> string \<Rightarrow> thrown + string" where
  "rest_truncate U m textContent =
     (case m of
        None \<Rightarrow> Inr textContent
      | Some v \<Rightarrow>
          if \<not> truthy_json v then Inr textContent
          else (case to_number U v of
                  Inl e \<Rightarrow> Inl e
                | Inr None \<Rightarrow> Inr textContent
                | Inr (Some k) \<Rightarrow>
                    if k < int (length textContent)
                    then Inr (substring0 textContent (of_int k) @ ''...'')
                    else Inr textContent))"

definition readGoogleDoc :: "Upstream \<Rightarrow> Docs \<Rightarrow> json \<Rightarrow> thrown + string" where
  "readGoogleDoc U docs args =
     (case documents_get U docs (arg args ''documentId'') None of
        Inl e \<Rightarrow> Inl (Error (''Failed to read document: '' @ template_str (err_message e)))
      | Inr d \<Rightarrow>
          (case rest_truncate U (arg args ''maxLength'') (rest_document_text d) of
             Inl e \<Rightarrow> rethrow ''Failed to read document: '' e
           | Inr textContent \<Rightarrow>
               Inr (''Document Content:'' @ [NL] @ ''---'' @ [NL] @ textContent)))"

definition searchGoogleDocs :: "Upstream \<Rightarrow> Drive \<Rightarrow> json \<Rightarrow> thrown + string" where
  "searchGoogleDocs U drive args =
     (let maxResults = with_default (arg args ''maxResults'') (JNum 10) in
      case template (Number_toString U) (arg args ''searchQuery'') of
        Inl e \<Rightarrow> rethrow ''Failed to search documents: '' e
      | Inr searchQuery \<Rightarrow>
          (case files_list U drive
                  \<lparr>q = doc_mime @ '' and (name contains '' @ [CHR 0x27] @ searchQuery
                        @ [CHR 0x27] @ '' or fullText contains '' @ [CHR 0x27]
                        @ searchQuery @ [CHR 0x27] @ '')'',
                   orderBy = None,
                   pageSize = maxResults,
                   list_fields = ''files(id,name,modifiedTime,owners,webViewLink)''\<rparr> of
             Inl e \<Rightarrow>
               Inl (Error (''Failed to search documents: '' @ template_str (err_message e)))
           | Inr files \<Rightarrow>
               Inr (''Search results for '' @ [CHR 0x22] @ searchQuery @ [CHR 0x22]
                    @ '':'' @ [NL, NL] @ format_files U files)))"

definition createDocument :: "Upstream \<Rightarrow> Docs \<Rightarrow> json \<Rightarrow> thrown + string" where
  "createDocument U docs args =
     (case arg args ''title'' of
        None \<Rightarrow> Inl (Error ''Failed to create document: title is required'')
      | Some title \<Rightarrow>
          if \<not> truthy_json title
          then Inl (Error ''Failed to create document: title is required'')
          else (case documents_create U docs title of
                  Inl e \<Rightarrow>
                    Inl (Error (''Failed to create document: '' @ template_str (err_message e)))
                | Inr r \<Rightarrow>
                    Inr (''Created document: '' @ [CHR 0x22] @ template_str (created_title r)
                         @ [CHR 0x22] @ [NL] @ ''Document ID: ''
                         @ template_str (created_documentId r) @ [NL]
                         @ ''View: https://docs.google.com/document/d/''
                         @ template_str (created_documentId r) @ ''/edit'')))"

text \<open>
  The registry \<open>tools\<close> is an object literal: besides its four own keys, a lookup finds
  the properties every object inherits, none of which has an \<open>execute\<close>.
\<close>

datatype Tool = GetRecentGoogleDocs | ReadGoogleDoc | SearchGoogleDocs | CreateDocument

definition inherited_keys :: "string list" where
  "inherited_keys =
     [''constructor'', ''__defineGetter__'', ''__defineSetter__'', ''hasOwnProperty'',
      ''__lookupGetter__'', ''__lookupSetter__'', ''isPrototypeOf'',
      ''propertyIsEnumerable'', ''toString'', ''valueOf'', ''__proto__'',
      ''toLocaleString'']"

definition tools :: "string \<Rightarrow> (Tool option) option" where
  "tools k =
     (if k = ''getRecentGoogleDocs'' then Some (Some GetRecentGoogleDocs)
      else if k = ''readGoogleDoc'' then Some (Some ReadGoogleDoc)
      else if k = ''searchGoogleDocs'' then Some (Some SearchGoogleDocs)
      else if k = ''createDocument'' then Some (Some CreateDocument)
      else if k \<in> set inherited_keys then Some None
      else None)"

definition execute :: "Upstream \<Rightarrow> Clients \<Rightarrow> Tool \<Rightarrow> json \<Rightarrow> thrown + string" where
  "execute U h tool args =
     (case h of (a, docs, drive) \<Rightarrow>
        (case tool of
           GetRecentGoogleDocs \<Rightarrow> getRecentGoogleDocs U drive args
         | ReadGoogleDoc \<Rightarrow> readGoogleDoc U docs args
         | SearchGoogleDocs \<Rightarrow> searchGoogleDocs U drive args
         | CreateDocument \<Rightarrow> createDocument U docs args))"

text \<open>
  The JSON answer of the endpoint with its HTTP status. The \<open>stack\<close> that the status 500
  answer also carries is left out.
\<close>

record Response =
  status :: nat
  success :: bool
  data :: "string option"
  error :: "string option"

definition failure :: "nat \<Rightarrow> string \<Rightarrow> Response" where
  "failure code msg = \<lparr>status = code, success = False, data = None, error = Some msg\<rparr>"

text \<open>\<open>toolArgs || {}\<close>, with \<open>toolArgs\<close> the \<open>arguments\<close> of the request body.\<close>

definition tool_args :: "json \<Rightarrow> json" where
  "tool_args reqBody =
     (if truthy (key_prop reqBody ''arguments'')
      then with_default (key_prop reqBody ''arguments'') (JObj [])
      else JObj [])"

text \<open>
  \<open>app.post('/api/mcp/call')\<close> on a request body (an object or an array). The route
  answers, or an exception leaves it (\<open>Inl\<close>): the lookup \<open>tools[toolName]\<close> turns the
  name into a string, and where that throws, the \<open>catch\<close> of the route throws again
  on the same name in its log line, before it has answered.
\<close>

definition mcp_call ::
  "Platform \<Rightarrow> Upstream \<Rightarrow> json \<Rightarrow> ClientState \<times> World
     \<Rightarrow> (thrown + Response) \<times> ClientState \<times> World" where
  "mcp_call P U reqBody sw =
     (case key_prop reqBody ''toolName'' of
        None \<Rightarrow> (Inr (failure 400 ''toolName is required''), sw)
      | Some toolName \<Rightarrow>
          if \<not> truthy_json toolName then (Inr (failure 400 ''toolName is required''), sw)
          else
            (case js_string (Number_toString U) toolName of
               Inl e \<Rightarrow> (Inl e, sw)
             | Inr name \<Rightarrow>
                 (case tools name of
                    None \<Rightarrow>
                      (Inr (failure 404 (''Tool '' @ [CHR 0x27] @ name @ [CHR 0x27]
                                         @ '' not found'')), sw)
                  | Some tool \<Rightarrow>
                      (case initializeGoogleClient_rest P sw of
                         (Inl e, sw') \<Rightarrow> (Inr (failure 500 (message_of e)), sw')
                       | (Inr h, sw') \<Rightarrow>
                           (case tool of
                              None \<Rightarrow>
                                (Inr (failure 500 ''tool.execute is not a function''), sw')
                            | Some t \<Rightarrow>
                                (case execute U h t (tool_args reqBody) of
                                   Inl e \<Rightarrow> (Inr (failure 500 (message_of e)), sw')
                                 | Inr result \<Rightarrow>
                                     (Inr \<lparr>status = 200, success = True,
                                           data = Some result, error = None\<rparr>, sw')))))))"

section \<open>Inline style composition\<close>

text \<open>The markers of the specification, each as a function of the style.\<close>

definition emphasis_marker :: "TextStyle \<Rightarrow> string" where
  "emphasis_marker st =
     (if bold st \<and> italic st then ''***'' else if bold st then ''**''
      else if italic st then ''*'' else [])"

definition wrap_underline :: "TextStyle \<Rightarrow> string \<Rightarrow> string" where
  "wrap_underline st s = (if underline st \<and> link st = None then ''<u>'' @ s @ ''</u>'' else s)"

definition wrap_strike :: "TextStyle \<Rightarrow> string \<Rightarrow> string" where
  "wrap_strike st s = (if strikethrough st then ''~~'' @ s @ ''~~'' else s)"

definition link_target :: "TextStyle \<Rightarrow> string option" where
  "link_target st =
     (case link st of
        None \<Rightarrow> None
      | Some l \<Rightarrow> (case url l of None \<Rightarrow> None | Some u \<Rightarrow> if u = [] then None else Some u))"

definition wrap_link :: "TextStyle \<Rightarrow> string \<Rightarrow> string" where
  "wrap_link st s =
     (case link_target st of None \<Rightarrow> s | Some u \<Rightarrow> ''['' @ s @ ''](''  @ u @ '')'')"

definition run_text :: "TextRun \<Rightarrow> string" where
  "run_text run = (case content run of None \<Rightarrow> [] | Some c \<Rightarrow> c)"

section \<open>Lines of a rendered table\<close>

text \<open>\<open>s.split('\n')\<close>: the lines of a string.\<close>

fun split_lines :: "string \<Rightarrow> string list" where
  "split_lines [] = [[]]"
| "split_lines (c # cs) =
     (if c = NL then [] # split_lines cs
      else (case split_lines cs of [] \<Rightarrow> [[c]] | l # ls \<Rightarrow> (c # l) # ls))"

text \<open>The line of a row, and the separator that belongs to a row of that many cells.\<close>

definition cells_of :: "TableRow \<Rightarrow> TableCell list" where
  "cells_of row = (case tableCells row of None \<Rightarrow> [] | Some cells \<Rightarrow> cells)"

definition row_line :: "TableRow \<Rightarrow> string" where
  "row_line row = ''|'' @ concat (map (\<lambda>cell. '' '' @ cell_text cell @ '' |'') (cells_of row))"

definition separator_line :: "TableRow \<Rightarrow> string" where
  "separator_line row = ''|'' @ concat (replicate (length (cells_of row)) '' --- |'')"

definition has_cells :: "TableRow \<Rightarrow> bool" where
  "has_cells row = (tableCells row \<noteq> None)"

section \<open>Tables nested in cells\<close>

text \<open>
  The contents of the runs of the paragraphs that stand directly in a cell, in order.
\<close>

definition run_contents :: "ParagraphElement list \<Rightarrow> string list" where
  "run_contents pes =
     concat (map (\<lambda>pe. case textRun pe of
                          None \<Rightarrow> []
                        | Some r \<Rightarrow> (case content r of None \<Rightarrow> [] | Some c \<Rightarrow> [c])) pes)"

definition element_runs :: "StructuralElement \<Rightarrow> string list" where
  "element_runs el =
     (case el_paragraph el of
        None \<Rightarrow> []
      | Some p \<Rightarrow> (case elements p of None \<Rightarrow> [] | Some pes \<Rightarrow> run_contents pes))"

definition direct_runs :: "TableCell \<Rightarrow> string list" where
  "direct_runs cell =
     (case cell_content cell of None \<Rightarrow> [] | Some els \<Rightarrow> concat (map element_runs els))"

text \<open>
  Putting other tables (or none) into the elements of the cells of a table: \<open>f\<close> gives
  the table that each element of a cell carries afterwards.
\<close>

definition renest_element :: "(StructuralElement \<Rightarrow> Table option) \<Rightarrow> StructuralElement
    \<Rightarrow> StructuralElement" where
  "renest_element f el = StructuralElement (el_paragraph el) (f el) (el_sectionBreak el)"

definition renest_cell :: "(StructuralElement \<Rightarrow> Table option) \<Rightarrow> TableCell \<Rightarrow> TableCell" where
  "renest_cell f cell = TableCell (map_option (map (renest_element f)) (cell_content cell))"

definition renest_row :: "(StructuralElement \<Rightarrow> Table option) \<Rightarrow> TableRow \<Rightarrow> TableRow" where
  "renest_row f row = TableRow (map_option (map (renest_cell f)) (tableCells row))"

definition renest_table :: "(StructuralElement \<Rightarrow> Table option) \<Rightarrow> Table \<Rightarrow> Table" where
  "renest_table f t = Table (map_option (map (renest_row f)) (tableRows t))"

definition renest_top :: "(StructuralElement \<Rightarrow> Table option) \<Rightarrow> StructuralElement
    \<Rightarrow> StructuralElement" where
  "renest_top f el =
     StructuralElement (el_paragraph el) (map_option (renest_table f) (el_table el))
       (el_sectionBreak el)"

definition renest_document :: "(StructuralElement \<Rightarrow> Table option) \<Rightarrow> Document \<Rightarrow> Document" where
  "renest_document f d =
     \<lparr>body = map_option
               (\<lambda>b. \<lparr>body_content = map_option (map (renest_top f)) (body_content b)\<rparr>)
               (body d)\<rparr>"

section \<open>Small documents\<close>

definition plain_run :: "string \<Rightarrow> ParagraphElement" where
  "plain_run s = \<lparr>textRun = Some \<lparr>content = Some s, textStyle = None\<rparr>\<rparr>"

definition plain_paragraph :: "string \<Rightarrow> StructuralElement" where
  "plain_paragraph s =
     StructuralElement
       (Some \<lparr>paragraphStyle = None, bullet = False, elements = Some [plain_run s]\<rparr>)
       None False"

definition document_of :: "StructuralElement list \<Rightarrow> Document" where
  "document_of els = \<lparr>body = Some \<lparr>body_content = Some els\<rparr>\<rparr>"

definition text_cell :: "string \<Rightarrow> TableCell" where
  "text_cell s = TableCell (Some [plain_paragraph s])"

section \<open>Credential sources for the examples\<close>

text \<open>
  A parser that agrees with \<open>JSON.parse\<close> on the texts the examples use: the two
  well-formed texts parse to their objects, and the cut-off text
  \<open>{"refresh_token":\<close> (like every text the examples do not use) is rejected.
\<close>

definition example_parse :: "string \<Rightarrow> json option" where
  \<open>example_parse s =
     (if s = ''{"installed":{"client_id":"id","client_secret":"secret"}}''
      then Some (JObj [(''installed'',
                        JObj [(''client_id'', JStr ''id''), (''client_secret'', JStr ''secret'')])])
      else if s = ''{"refresh_token":"r"}'' then Some (JObj [(''refresh_token'', JStr ''r'')])
      else None)\<close>

definition example_platform :: Platform where
  "example_platform = \<lparr>JSON_parse = example_parse, JSON_stringify = (\<lambda>j. []), getToken = None\<rparr>"

definition corrupt_world :: World where
  \<open>corrupt_world =
     \<lparr>GOOGLE_CREDENTIALS = Some ''{"installed":{"client_id":"id","client_secret":"secret"}}'',
      GOOGLE_TOKEN = Some ''{"refresh_token":'',
      credentials_file = Some ''{"installed":{"client_id":"id","client_secret":"secret"}}'',
      token_file = Some ''{"refresh_token":"r"}'',
      token_file_writable = False,
      questions = 0\<rparr>\<close>

definition file_client :: OAuth2Client where
  "file_client =
     \<lparr>client_id = Some (JStr ''id''), client_secret = Some (JStr ''secret''),
      redirect_uri = Some oob, credentials = JObj [(''refresh_token'', JStr ''r'')]\<rparr>"

definition managed_error :: thrown where
  "managed_error =
     Error (''No valid credentials found in Cloud Run environment. ''
            @ ''Please check Secret Manager configuration.'')"

definition managed_world :: World where
  \<open>managed_world =
     \<lparr>GOOGLE_CREDENTIALS = Some ''{"installed":{"client_id":"id","client_secret":"secret"}}'',
      GOOGLE_TOKEN = None,
      credentials_file = None,
      token_file = None,
      token_file_writable = False,
      questions = 0\<rparr>\<close>

definition local_world :: World where
  \<open>local_world =
     \<lparr>GOOGLE_CREDENTIALS = None,
      GOOGLE_TOKEN = None,
      credentials_file = Some ''{"installed":{"client_id":"id","client_secret":"secret"}}'',
      token_file = Some ''{"refresh_token":"r"}'',
      token_file_writable = True,
      questions = 0\<rparr>\<close>

section \<open>An upstream for the examples\<close>

text \<open>
  An upstream whose document calls are refused with the given code and message and
  whose file search finds nothing. Its number printing agrees with the engine on
  \<open>2.5\<close>, the one number outside the safe integers that the examples print.
\<close>

definition refusing_upstream :: "json option \<Rightarrow> string \<Rightarrow> Upstream" where
  "refusing_upstream code msg =
     \<lparr>documents_get = (\<lambda>docs documentId fields. Inl \<lparr>err_code = code, err_message = Some msg\<rparr>),
      documents_create = (\<lambda>docs title. Inl \<lparr>err_code = code, err_message = Some msg\<rparr>),
      files_list = (\<lambda>drive request. Inr (Some [])),
      stringify_document = (\<lambda>d. []),
      cutoff_iso = (\<lambda>days. Some ''2024-01-01T00:00:00.000Z''),
      toLocaleString = (\<lambda>t. t),
      StringToNumber = (\<lambda>t. None),
      Number_toString = (\<lambda>m. if m = 5 / 2 then ''2.5'' else [])\<rparr>"

definition call_body :: "string \<Rightarrow> json \<Rightarrow> json" where
  "call_body name args = JObj [(''toolName'', JStr name), (''arguments'', args)]"

text \<open>Arguments of the streaming server's \<open>readGoogleDoc\<close> with the defaults of its schema.\<close>

definition read_args :: "string \<Rightarrow> ReadArgs" where
  "read_args docId = \<lparr>documentId = docId, format = Text, maxLength = None\<rparr>"

section \<open>Calls after the first\<close>

text \<open>
  A run of later calls of an initializer, each made with the platform and the world of
  its moment; the module state is what one call leaves to the next.
\<close>

type_synonym initializer =
  "Platform \<Rightarrow> ClientState \<times> World \<Rightarrow> (thrown + Clients) \<times> ClientState \<times> World"

fun later_calls :: "initializer \<Rightarrow> (Platform \<times> World) list \<Rightarrow> ClientState
    \<Rightarrow> ((thrown + Clients) \<times> World) list \<times> ClientState" where
  "later_calls init [] s = ([], s)"
| "later_calls init (pw # rest) s =
     (case init (fst pw) (s, snd pw) of
        (r, s', w') \<Rightarrow>
          (case later_calls init rest s' of (rs, s'') \<Rightarrow> ((r, w') # rs, s'')))"

definition all_clients :: "OAuth2Client \<Rightarrow> ClientState" where
  "all_clients c =
     \<lparr>authClient = Some c, googleDocs = Some (Docs c), googleDrive = Some (Drive c)\<rparr>"

text \<open>
  The states the initializers leave behind: nothing set, or the three variables set
  from one client.
\<close>

definition consistent :: "ClientState \<Rightarrow> bool" where
  "consistent s = (s = no_clients \<or> (case authClient s of None \<Rightarrow> False | Some c \<Rightarrow> s = all_clients c))"

definition http_init_error :: thrown where
  "http_init_error =
     Error (''Google client initialization failed. '' @ ''Cannot start server tools.'')"

text \<open>What a call that finds nothing cached does: it resolves the credentials.\<close>

definition resolve_http ::
  "Platform \<Rightarrow> World \<Rightarrow> (thrown + Clients) \<times> ClientState \<times> World" where
  "resolve_http P w =
     (case authorize P w of
        (Inl e, w') \<Rightarrow> (Inl http_init_error, no_clients, w')
      | (Inr c, w') \<Rightarrow> (Inr (Some c, Docs c, Drive c), all_clients c, w'))"

definition resolve_rest ::
  "Platform \<Rightarrow> ClientState \<Rightarrow> World \<Rightarrow> (thrown + Clients) \<times> ClientState \<times> World" where
  "resolve_rest P s w =
     (case authorize P w of
        (Inl e, w') \<Rightarrow> (Inl e, s, w')
      | (Inr c, w') \<Rightarrow> (Inr (Some c, Docs c, Drive c), all_clients c, w'))"

section \<open>Properties\<close>

subsection \<open>Loops as concatenations\<close>

lemma foldl_append_concat:
  "foldl (\<lambda>acc x. acc @ f x) a xs = a @ concat (map f xs)"
  by (induction xs arbitrary: a) auto

lemma row_text_eq:
  "row_text cells = ''|'' @ concat (map (\<lambda>cell. '' '' @ cell_text cell @ '' |'') cells)"
  unfolding row_text_def by (rule foldl_append_concat)

lemma separator_loop_eq:
  "separator_loop n s = s @ concat (replicate n '' --- |'')"
proof (induction n arbitrary: s)
  case 0
  show ?case by simp
next
  case (Suc n)
  have "separator_loop (Suc n) s = (s @ '' --- |'') @ concat (replicate n '' --- |'')"
    using Suc.IH by simp
  also have "\<dots> = s @ concat (replicate (Suc n) '' --- |'')"
    by simp
  finally show ?case .
qed

lemma set_trim: "set (trim s) \<subseteq> set s"
  unfolding trim_def
  by (metis set_rev set_dropWhileD subsetI)

lemma NL_flatten: "NL \<notin> set (flatten_newlines s)"
  by (auto simp: flatten_newlines_def NL_def)

lemma NL_cell_run_step: "NL \<notin> set acc \<Longrightarrow> NL \<notin> set (cell_run_step acc pe)"
  using set_trim NL_flatten
  by (auto simp: cell_run_step_def split: option.splits)

lemma NL_foldl_run: "NL \<notin> set acc \<Longrightarrow> NL \<notin> set (foldl cell_run_step acc pes)"
  by (induction pes arbitrary: acc) (auto simp: NL_cell_run_step)

lemma NL_cell_element_step: "NL \<notin> set acc \<Longrightarrow> NL \<notin> set (cell_element_step acc el)"
  by (auto simp: cell_element_step_def NL_foldl_run split: option.splits)

lemma NL_foldl_element: "NL \<notin> set acc \<Longrightarrow> NL \<notin> set (foldl cell_element_step acc els)"
  by (induction els arbitrary: acc) (auto simp: NL_cell_element_step)

lemma NL_cell_text: "NL \<notin> set (cell_text cell)"
  by (auto simp: cell_text_def NL_foldl_element split: option.splits)

lemma NL_row_line: "NL \<notin> set (row_line row)"
  using NL_cell_text by (auto simp: row_line_def NL_def)

lemma NL_separator_line: "NL \<notin> set (separator_line row)"
  by (auto simp: separator_line_def NL_def)

lemma split_lines_not_Nil: "split_lines s \<noteq> []"
  by (induction s) (auto split: list.splits)

lemma split_lines_append:
  "NL \<notin> set a \<Longrightarrow> split_lines (a @ NL # r) = a # split_lines r"
  by (induction a) (auto split: list.splits)

lemma table_rest:
  "\<forall>row \<in> set rs. has_cells row \<Longrightarrow>
   foldl table_row_step (md, False) rs = (md @ concat (map (\<lambda>r. row_line r @ [NL]) rs), False)"
  by (induction rs arbitrary: md)
     (auto simp: table_row_step_def has_cells_def row_text_eq row_line_def cells_of_def)

lemma split_lines_rows:
  "split_lines (concat (map (\<lambda>r. row_line r @ [NL]) rs) @ rest) = map row_line rs @ split_lines rest"
  using NL_row_line by (induction rs) (auto simp: split_lines_append)

lemma cell_run_step_concat:
  "foldl cell_run_step acc pes =
     acc @ concat (map (\<lambda>c. if c = [] then [] else trim (flatten_newlines c)) (run_contents pes))"
  by (induction pes arbitrary: acc)
     (auto simp: cell_run_step_def run_contents_def split: option.splits)

lemma cell_element_step_concat:
  "foldl cell_element_step acc els =
     acc @ concat (map (\<lambda>c. if c = [] then [] else trim (flatten_newlines c))
                    (concat (map element_runs els)))"
  by (induction els arbitrary: acc)
     (auto simp: cell_element_step_def element_runs_def cell_run_step_concat
           split: option.splits)

lemma cell_text_direct:
  "cell_text cell =
     concat (map (\<lambda>c. if c = [] then [] else trim (flatten_newlines c)) (direct_runs cell))"
  by (simp add: cell_text_def direct_runs_def cell_element_step_concat split: option.splits)

lemma trim_Nil: "trim [] = []"
  by (simp add: trim_def)

lemma element_runs_renest: "element_runs (renest_element f el) = element_runs el"
  by (simp add: element_runs_def renest_element_def)

lemma direct_runs_renest: "direct_runs (renest_cell f cell) = direct_runs cell"
  by (cases "cell_content cell")
     (simp_all add: direct_runs_def renest_cell_def element_runs_renest comp_def)

lemma cell_text_renest: "cell_text (renest_cell f cell) = cell_text cell"
  by (simp add: cell_text_direct direct_runs_renest)

lemma row_text_renest: "row_text (map (renest_cell f) cells) = row_text cells"
  by (simp add: row_text_eq comp_def cell_text_renest)

lemma table_row_step_renest:
  "table_row_step st (renest_row f row) = table_row_step st row"
  by (cases "tableCells row")
     (simp_all add: table_row_step_def renest_row_def row_text_renest Let_def
       split: prod.splits)

lemma foldl_table_renest:
  "foldl table_row_step st (map (renest_row f) rows) = foldl table_row_step st rows"
  by (induction rows arbitrary: st) (simp_all add: table_row_step_renest)

lemma table_renest: "convertTableToMarkdown (renest_table f t) = convertTableToMarkdown t"
  by (cases "tableRows t")
     (simp_all add: convertTableToMarkdown_def renest_table_def foldl_table_renest)

lemma doc_element_step_renest:
  "doc_element_step md (renest_top f el) = doc_element_step md el"
  by (cases "el_table el")
     (simp_all add: doc_element_step_def renest_top_def table_renest split: option.splits)

lemma foldl_doc_renest:
  "foldl doc_element_step md (map (renest_top f) els) = foldl doc_element_step md els"
  by (induction els arbitrary: md) (simp_all add: doc_element_step_renest)


subsection \<open>The document of one paragraph \<open>abcdef\<close>, and the blank document\<close>

lemma render_abcdef:
  "convertDocsJsonToMarkdown (document_of [plain_paragraph ''abcdef'']) = ''abcdef''"
  by (simp add: convertDocsJsonToMarkdown_def document_of_def plain_paragraph_def
      plain_run_def doc_element_step_def convertParagraphToMarkdown_def heading_of_def
      paragraph_text_def convertTextRunToMarkdown_def trim_def is_space_def NL_def)

lemma text_abcdef:
  "document_text (document_of [plain_paragraph ''abcdef'']) = ''abcdef''"
  by (simp add: document_text_def document_of_def plain_paragraph_def plain_run_def
      text_element_step_def text_paragraph_step_def text_run_step_def)

lemma render_blank:
  "convertDocsJsonToMarkdown
     (document_of [StructuralElement None None True, plain_paragraph [NL]]) = ''---''"
  by (simp add: convertDocsJsonToMarkdown_def document_of_def plain_paragraph_def
      plain_run_def doc_element_step_def convertParagraphToMarkdown_def heading_of_def
      paragraph_text_def convertTextRunToMarkdown_def trim_def is_space_def NL_def)

lemma text_blank:
  "document_text (document_of [StructuralElement None None True, plain_paragraph [NL]]) = [NL]"
  by (simp add: document_text_def document_of_def plain_paragraph_def plain_run_def
      text_element_step_def text_paragraph_step_def text_run_step_def NL_def)

lemma table_without_rows: "convertTableToMarkdown (Table (Some [])) = []"
  by (simp add: convertTableToMarkdown_def)

subsection \<open>Credential resolution and the cache\<close>

lemma authorize_corrupt_world:
  "authorize example_platform corrupt_world = (Inr file_client, corrupt_world)"
  by (simp add: authorize_def loadSavedCredentialsIfExist_def loadCredentialsFromEnvOrFile_def
      load_from_files_def parse_pair_def env_set_def env_text_def example_platform_def
      corrupt_world_def example_parse_def client_key_def get_prop_def truthy_def key_prop_def
      js_or_def optional_index0_def file_client_def)

lemma load_without_env:
  "loadCredentialsFromEnvOrFile P (w\<lparr>GOOGLE_CREDENTIALS := None, GOOGLE_TOKEN := None\<rparr>)
     = load_from_files P w"
  by (simp add: loadCredentialsFromEnvOrFile_def load_from_files_def env_set_def
      split: option.splits)

lemma authenticate_asks:
  "\<not> env_set (GOOGLE_CREDENTIALS w) \<Longrightarrow> loadClientSecrets P w = Inr cs \<Longrightarrow>
   questions (snd (authenticate P w)) = questions w + 1"
  by (simp add: authenticate_def saveCredentials_def Let_def
      split: option.splits sum.splits)

lemma authenticate_asks_local:
  "questions (snd (authenticate example_platform local_world)) = 1"
  by (simp add: authenticate_def loadClientSecrets_def loadCredentialsFromEnvOrFile_def
      load_from_files_def parse_pair_def env_set_def example_platform_def local_world_def
      example_parse_def client_key_def get_prop_def truthy_def key_prop_def js_or_def)

lemma cached_hit_http:
  "cached_clients s = Some h \<Longrightarrow> initializeGoogleClient_http P (s, w) = (Inr h, s, w)"
  by (simp add: initializeGoogleClient_http_def)

lemma cached_hit_rest:
  "cached_clients s = Some h \<Longrightarrow> initializeGoogleClient_rest P (s, w) = (Inr h, s, w)"
  by (simp add: initializeGoogleClient_rest_def)

lemma fill_cached:
  "authClient s = Some c \<Longrightarrow> cached_clients (fill_drive (fill_docs s)) \<noteq> None"
  by (auto simp: cached_clients_def fill_drive_def fill_docs_def split: option.splits)

lemma http_success_caches:
  assumes "initializeGoogleClient_http P (s, w) = (Inr h, s', w')"
  shows "cached_clients s' = Some h"
proof (cases "cached_clients s")
  case (Some h0)
  with assms show ?thesis by (simp add: initializeGoogleClient_http_def)
next
  case None
  show ?thesis
  proof (cases "authClient s")
    case (Some c)
    with None assms show ?thesis
      by (auto simp: initializeGoogleClient_http_def Let_def split: option.splits)
  next
    case noauth: None
    obtain r w1 where az: "authorize P w = (r, w1)" by (cases "authorize P w")
    show ?thesis
    proof (cases r)
      case (Inl e)
      with None noauth az assms show ?thesis
        by (simp add: initializeGoogleClient_http_def)
    next
      case (Inr c)
      with None noauth az assms show ?thesis
        by (auto simp: initializeGoogleClient_http_def Let_def cached_clients_def
            fill_drive_def fill_docs_def split: option.splits)
    qed
  qed
qed

lemma http_failure_clears:
  assumes "initializeGoogleClient_http P (s, w) = (Inl e, s', w')"
  shows "s' = no_clients \<and> e = http_init_error"
proof (cases "cached_clients s")
  case (Some h0)
  with assms show ?thesis by (simp add: initializeGoogleClient_http_def)
next
  case None
  show ?thesis
  proof (cases "authClient s")
    case (Some c)
    from fill_cached [OF Some] obtain h where "cached_clients (fill_drive (fill_docs s)) = Some h"
      by auto
    with None Some assms show ?thesis
      by (simp add: initializeGoogleClient_http_def Let_def)
  next
    case noauth: None
    obtain r w1 where az: "authorize P w = (r, w1)" by (cases "authorize P w")
    show ?thesis
    proof (cases r)
      case (Inl e0)
      with None noauth az assms show ?thesis
        by (auto simp: initializeGoogleClient_http_def http_init_error_def)
    next
      case (Inr c)
      with None noauth az assms show ?thesis
        by (auto simp: initializeGoogleClient_http_def Let_def cached_clients_def
            fill_drive_def fill_docs_def split: option.splits)
    qed
  qed
qed

lemma http_from_no_clients:
  "initializeGoogleClient_http P (no_clients, w) = resolve_http P w"
  by (auto simp: initializeGoogleClient_http_def resolve_http_def no_clients_def
      cached_clients_def fill_drive_def fill_docs_def all_clients_def http_init_error_def
      Let_def split: prod.splits sum.splits)

lemma rest_success_caches:
  assumes "initializeGoogleClient_rest P (s, w) = (Inr h, s', w')"
  shows "cached_clients s' = Some h"
  using assms
  by (auto simp: initializeGoogleClient_rest_def cached_clients_def
      split: option.splits prod.splits sum.splits)

lemma rest_failure_keeps:
  assumes "initializeGoogleClient_rest P (s, w) = (Inl e, s', w')"
  shows "s' = s \<and> cached_clients s = None \<and> authorize P w = (Inl e, w')"
  using assms
  by (auto simp: initializeGoogleClient_rest_def split: option.splits prod.splits sum.splits)

lemma rest_without_cache:
  "cached_clients s = None \<Longrightarrow> initializeGoogleClient_rest P (s, w) = resolve_rest P s w"
  by (auto simp: initializeGoogleClient_rest_def resolve_rest_def all_clients_def
      split: prod.splits sum.splits)

lemma no_clients_not_all: "no_clients \<noteq> all_clients c"
  by (simp add: no_clients_def all_clients_def)

lemma consistent_uncached: "consistent s \<Longrightarrow> cached_clients s = None \<Longrightarrow> s = no_clients"
  by (auto simp: consistent_def cached_clients_def all_clients_def split: option.splits)

lemma consistent_http:
  "consistent s \<Longrightarrow> initializeGoogleClient_http P (s, w) = (r, s', w') \<Longrightarrow> consistent s'"
proof (cases "cached_clients s")
  case None
  assume "consistent s" and run: "initializeGoogleClient_http P (s, w) = (r, s', w')"
  with None have "s = no_clients" by (simp add: consistent_uncached)
  with run have "resolve_http P w = (r, s', w')" by (simp add: http_from_no_clients)
  then show ?thesis
    by (auto simp: resolve_http_def consistent_def all_clients_def split: prod.splits sum.splits)
next
  case (Some h)
  assume "consistent s" and "initializeGoogleClient_http P (s, w) = (r, s', w')"
  with Some show ?thesis by (simp add: cached_hit_http)
qed

lemma consistent_rest:
  "consistent s \<Longrightarrow> initializeGoogleClient_rest P (s, w) = (r, s', w') \<Longrightarrow> consistent s'"
proof (cases "cached_clients s")
  case None
  assume "consistent s" and run: "initializeGoogleClient_rest P (s, w) = (r, s', w')"
  with None have "resolve_rest P s w = (r, s', w')" by (simp add: rest_without_cache)
  with \<open>consistent s\<close> show ?thesis
    by (auto simp: resolve_rest_def consistent_def all_clients_def split: prod.splits sum.splits)
next
  case (Some h)
  assume "consistent s" and "initializeGoogleClient_rest P (s, w) = (r, s', w')"
  with Some show ?thesis by (simp add: cached_hit_rest)
qed

lemma later_calls_cached_http:
  "cached_clients s = Some h \<Longrightarrow>
   later_calls initializeGoogleClient_http calls s = (map (\<lambda>pw. (Inr h, snd pw)) calls, s)"
  by (induction calls) (simp_all add: cached_hit_http)

lemma later_calls_cached_rest:
  "cached_clients s = Some h \<Longrightarrow>
   later_calls initializeGoogleClient_rest calls s = (map (\<lambda>pw. (Inr h, snd pw)) calls, s)"
  by (induction calls) (simp_all add: cached_hit_rest)

lemma authorize_local_world:
  "authorize example_platform local_world = (Inr file_client, local_world)"
  by (simp add: authorize_def loadSavedCredentialsIfExist_def loadCredentialsFromEnvOrFile_def
      load_from_files_def parse_pair_def env_set_def env_text_def example_platform_def
      local_world_def example_parse_def client_key_def get_prop_def truthy_def key_prop_def
      js_or_def optional_index0_def file_client_def)

lemma authorize_managed_world:
  "authorize example_platform managed_world = (Inl managed_error, managed_world)"
  by (simp add: authorize_def loadSavedCredentialsIfExist_def loadCredentialsFromEnvOrFile_def
      load_from_files_def env_set_def managed_world_def managed_error_def)

subsection \<open>The generic call endpoint\<close>

lemma tools_own:
  "tools ''getRecentGoogleDocs'' = Some (Some GetRecentGoogleDocs)"
  "tools ''readGoogleDoc'' = Some (Some ReadGoogleDoc)"
  "tools ''searchGoogleDocs'' = Some (Some SearchGoogleDocs)"
  "tools ''createDocument'' = Some (Some CreateDocument)"
  by (simp_all add: tools_def)

lemma mcp_call_tool:
  assumes name: "key_prop reqBody ''toolName'' = Some (JStr name)" "name \<noteq> []"
    and tool: "tools name = Some (Some t)"
    and init: "initializeGoogleClient_rest P sw = (Inr h, sw')"
  shows "mcp_call P U reqBody sw =
           (case execute U h t (tool_args reqBody) of
              Inl x \<Rightarrow> (Inr (failure 500 (message_of x)), sw')
            | Inr result \<Rightarrow>
                (Inr \<lparr>status = 200, success = True, data = Some result, error = None\<rparr>,
                 sw'))"
  using assms by (simp add: mcp_call_def)

lemma createDocument_without_title:
  "\<not> truthy (arg args ''title'') \<Longrightarrow>
   createDocument U docs args = Inl (Error ''Failed to create document: title is required'')"
  by (simp add: createDocument_def truthy_def split: option.splits)

text \<open>\<open>searchGoogleDocs\<close> on an empty argument bag, where the search finds nothing.\<close>

lemma searchGoogleDocs_empty_bag:
  "searchGoogleDocs (refusing_upstream None []) drive (JObj []) =
     Inr (''Search results for '' @ [CHR 0x22] @ ''undefined'' @ [CHR 0x22] @ '':'' @ [NL, NL])"
  by (simp add: searchGoogleDocs_def refusing_upstream_def arg_def key_prop_def get_prop_def
      with_default_def template_def format_files_def Let_def)

text \<open>A tool name that is an object with a \<open>toString\<close> of its own: the exception leaves the route.\<close>

lemma tool_name_object_escapes:
  "mcp_call P U (JObj [(''toolName'', JObj [(''toString'', JNum 1)])]) sw =
     (Inl not_primitive, sw)"
  by (simp add: mcp_call_def key_prop_def get_prop_def)

lemma init_ready:
  "initializeGoogleClient_rest P (all_clients c, w) =
     (Inr (Some c, Docs c, Drive c), all_clients c, w)"
  by (simp add: initializeGoogleClient_rest_def cached_clients_def all_clients_def)

lemma init_ready_http:
  "initializeGoogleClient_http P (all_clients c, w) =
     (Inr (Some c, Docs c, Drive c), all_clients c, w)"
  by (simp add: initializeGoogleClient_http_def cached_clients_def all_clients_def)

lemma readGoogleDoc_failure:
  "documents_get U docs (arg args ''documentId'') None = Inl e \<Longrightarrow>
   readGoogleDoc U docs args =
     Inl (Error (''Failed to read document: '' @ template_str (err_message e)))"
  by (simp add: readGoogleDoc_def)

lemma createDocument_failure:
  "arg args ''title'' = Some title \<Longrightarrow> truthy_json title \<Longrightarrow>
   documents_create U docs title = Inl e \<Longrightarrow>
   createDocument U docs args =
     Inl (Error (''Failed to create document: '' @ template_str (err_message e)))"
  by (simp add: createDocument_def)

lemma read_call_refused:
  "mcp_call example_platform (refusing_upstream code ''The caller does not have permission'')
     (call_body ''readGoogleDoc'' (JObj [(''documentId'', JStr ''doc1'')]))
     (all_clients file_client, local_world) =
   (Inr (failure 500 ''Failed to read document: The caller does not have permission''),
    all_clients file_client, local_world)"
proof -
  let ?U = "refusing_upstream code ''The caller does not have permission''"
  let ?b = "call_body ''readGoogleDoc'' (JObj [(''documentId'', JStr ''doc1'')])"
  have a: "key_prop ?b ''toolName'' = Some (JStr ''readGoogleDoc'')"
    by (simp add: call_body_def key_prop_def get_prop_def)
  have "execute ?U (Some file_client, Docs file_client, Drive file_client) ReadGoogleDoc
          (tool_args ?b) =
        Inl (Error ''Failed to read document: The caller does not have permission'')"
    by (simp add: execute_def readGoogleDoc_def refusing_upstream_def template_str_def)
  then show ?thesis
    using mcp_call_tool [OF a _ tools_own(2) init_ready, of example_platform ?U file_client
        local_world]
    by (simp add: message_of_def)
qed

subsection \<open>The claims\<close>

text \<open>
  C7: the markers of a run compose in one fixed order. The emphasis marker is chosen
  once (three stars for bold with italic, two for bold alone, one for italic alone) and
  stands on both sides of the text; the underline tag goes around that only when the
  style has no link; the strike marker goes around the result; and a link target, when
  there is one, goes around everything in \<open>[...](url)\<close>. A run without a style is its
  text.
\<close>

theorem text_run_style_precedence:
  "convertTextRunToMarkdown (run\<lparr>textStyle := Some st\<rparr>) =
     wrap_link st (wrap_strike st (wrap_underline st
       (emphasis_marker st @ run_text run @ emphasis_marker st)))
   \<and> convertTextRunToMarkdown (run\<lparr>textStyle := None\<rparr>) = run_text run"
  by (simp add: convertTextRunToMarkdown_def wrap_link_def wrap_strike_def
      wrap_underline_def emphasis_marker_def link_target_def run_text_def Let_def
      split: option.splits)

text \<open>A bold, italic, underlined, struck run with and without a link.\<close>

theorem text_run_style_precedence_witness:
  "convertTextRunToMarkdown
     \<lparr>content = Some ''x'',
      textStyle = Some \<lparr>bold = True, italic = True, underline = True, strikethrough = True,
                         link = Some \<lparr>url = Some ''u''\<rparr>\<rparr>\<rparr> = ''[~~***x***~~](u)''
   \<and> convertTextRunToMarkdown
     \<lparr>content = Some ''x'',
      textStyle = Some \<lparr>bold = True, italic = True, underline = True, strikethrough = True,
                         link = None\<rparr>\<rparr> = ''~~<u>***x***</u>~~''"
  using text_run_style_precedence
    [where run = "\<lparr>content = Some ''x'', textStyle = None\<rparr>"
       and st = "\<lparr>bold = True, italic = True, underline = True, strikethrough = True,
                  link = Some \<lparr>url = Some ''u''\<rparr>\<rparr>"]
    text_run_style_precedence
    [where run = "\<lparr>content = Some ''x'', textStyle = None\<rparr>"
       and st = "\<lparr>bold = True, italic = True, underline = True, strikethrough = True,
                  link = None\<rparr>"]
  by (simp add: wrap_link_def wrap_strike_def wrap_underline_def emphasis_marker_def
      link_target_def run_text_def)

text \<open>
  C6: a table with \<open>N\<close> rows, a first row and \<open>N - 1\<close> more, each with its list of
  cells, renders as a blank line, the line of the first row, one separator line with
  one \<open>---\<close> per cell of the first row, the lines of the other rows in order, and a
  closing blank line: \<open>N\<close> row lines and exactly one separator, which is the line
  right after the first row whatever the cells hold.
\<close>

theorem table_lines:
  assumes rows: "tableRows t = Some (r # rs)"
    and cells: "\<forall>row \<in> set (r # rs). has_cells row"
  shows "split_lines (convertTableToMarkdown t) =
           [[], row_line r, separator_line r] @ map row_line rs @ [[], []]"
proof -
  from cells obtain cs where cs: "tableCells r = Some cs"
    by (auto simp: has_cells_def)
  have first: "table_row_step ([NL], True) r =
                 ([NL] @ row_line r @ [NL] @ separator_line r @ [NL], False)"
    using cs
    by (simp add: table_row_step_def row_text_eq separator_loop_eq row_line_def
        separator_line_def cells_of_def)
  have rest: "foldl table_row_step ([NL], True) (r # rs) =
                ([NL] @ row_line r @ [NL] @ separator_line r @ [NL]
                 @ concat (map (\<lambda>r. row_line r @ [NL]) rs), False)"
    using cells by (simp add: first table_rest)
  have md: "convertTableToMarkdown t =
              NL # (row_line r @ NL # (separator_line r @ NL #
                (concat (map (\<lambda>r. row_line r @ [NL]) rs) @ [NL])))"
    using rows rest by (simp add: convertTableToMarkdown_def)
  show ?thesis
    unfolding md
    by (simp add: split_lines_append NL_row_line NL_separator_line split_lines_rows)
qed

text \<open>Two rows of two cells.\<close>

theorem table_lines_witness:
  "split_lines (convertTableToMarkdown
     (Table (Some [TableRow (Some [text_cell ''a'', text_cell ''b'']),
                   TableRow (Some [text_cell ''c'', text_cell ''d''])]))) =
   [[], ''| a | b |'', ''| --- | --- |'', ''| c | d |'', [], []]"
proof -
  let ?r1 = "TableRow (Some [text_cell ''a'', text_cell ''b''])"
  let ?r2 = "TableRow (Some [text_cell ''c'', text_cell ''d''])"
  have rows: "tableRows (Table (Some [?r1, ?r2])) = Some (?r1 # [?r2])"
    by simp
  have cells: "\<forall>row \<in> set (?r1 # [?r2]). has_cells row"
    by (simp add: has_cells_def)
  have cell_texts: "cell_text (text_cell ''a'') = ''a''" "cell_text (text_cell ''b'') = ''b''"
    "cell_text (text_cell ''c'') = ''c''" "cell_text (text_cell ''d'') = ''d''"
    by (simp_all add: cell_text_def text_cell_def plain_paragraph_def plain_run_def
        cell_element_step_def cell_run_step_def trim_def flatten_newlines_def is_space_def
        NL_def)
  show ?thesis
    using table_lines [OF rows cells]
    by (simp add: row_line_def separator_line_def cells_of_def cell_texts)
qed

text \<open>
  C10: the text of a cell is made of the runs of the paragraphs that stand directly in
  the cell, each with its line feeds turned into spaces and trimmed; whatever tables the
  elements of the cells carry, and whatever those tables hold, the rendering of the
  table and of the document is the same.
\<close>

theorem nested_tables_not_rendered:
  "convertDocsJsonToMarkdown (renest_document f d) = convertDocsJsonToMarkdown d
   \<and> convertTableToMarkdown (renest_table f t) = convertTableToMarkdown t
   \<and> cell_text cell = concat (map (\<lambda>c. trim (flatten_newlines c)) (direct_runs cell))"
proof -
  have "convertDocsJsonToMarkdown (renest_document f d) = convertDocsJsonToMarkdown d"
    by (simp add: convertDocsJsonToMarkdown_def renest_document_def foldl_doc_renest
        split: option.splits)
  moreover have "(\<lambda>c. if c = [] then [] else trim (flatten_newlines c))
                 = (\<lambda>c. trim (flatten_newlines c))"
    by (auto simp: trim_Nil flatten_newlines_def)
  ultimately show ?thesis
    by (simp add: table_renest cell_text_direct)
qed

text \<open>A cell that holds a paragraph and, nested, a table with a text of its own.\<close>

theorem nested_tables_not_rendered_witness:
  "convertTableToMarkdown
     (renest_table (\<lambda>el. Some (Table (Some [TableRow (Some [text_cell ''inner''])])))
        (Table (Some [TableRow (Some [text_cell ''outer''])]))) =
   [NL] @ ''| outer |'' @ [NL] @ ''| --- |'' @ [NL, NL]"
proof -
  let ?f = "\<lambda>el. Some (Table (Some [TableRow (Some [text_cell ''inner''])]))"
  let ?t = "Table (Some [TableRow (Some [text_cell ''outer''])])"
  have "convertTableToMarkdown (renest_table ?f ?t) = convertTableToMarkdown ?t"
    using nested_tables_not_rendered [of ?f _ ?t] by simp
  moreover have "cell_text (text_cell ''outer'') = ''outer''"
    by (simp add: cell_text_def text_cell_def plain_paragraph_def plain_run_def
        cell_element_step_def cell_run_step_def trim_def flatten_newlines_def is_space_def
        NL_def)
  ultimately show ?thesis
    by (simp add: convertTableToMarkdown_def table_row_step_def row_text_def)
qed

text \<open>
  C3 (as amended): with \<open>R\<close> the fully rendered Markdown and \<open>T\<close> the fully collected
  text of a document and \<open>M\<close> the requested maximum length, any number. In Markdown
  format, for every document, a non-zero \<open>M\<close> below the length of \<open>R\<close> gives the
  first \<open>\<lfloor>M\<rfloor>\<close> characters of \<open>R\<close> (none for a negative \<open>M\<close>) and then a suffix that
  reports \<open>M\<close>, as the engine prints it, and the total length; \<open>M = 0\<close>, no \<open>M\<close>
  or an \<open>M\<close> of at least the length gives \<open>R\<close> unchanged. In text format a blank
  \<open>T\<close> gives the sentinel; otherwise the answer starts with a header line and a rule,
  and a non-zero \<open>M\<close> below the length of \<open>T\<close> gives the header with \<open>M\<close>, the
  first \<open>\<lfloor>M\<rfloor>\<close> characters of \<open>T\<close> and a closing ellipsis, any other \<open>M\<close> the
  header with the length and all of \<open>T\<close>. A whole \<open>M\<close> from 0 to \<open>2^53 - 1\<close> is
  printed as its decimal numeral and cuts exactly \<open>M\<close> characters. The cut is always
  taken from the finished string.
\<close>

theorem truncation_of_rendered_output:
  assumes R: "R = convertDocsJsonToMarkdown d" and T: "T = document_text d"
  shows "(M \<noteq> 0 \<and> M < of_nat (length R) \<longrightarrow>
            respond_markdown U (Some M) d =
              take (nat \<lfloor>M\<rfloor>) R @ [NL, NL] @ ''... [Markdown truncated to ''
              @ number_text (Number_toString U) M @ '' chars of '' @ decimal (length R)
              @ '' total.]'')
       \<and> (M = 0 \<or> of_nat (length R) \<le> M \<longrightarrow> respond_markdown U (Some M) d = R)
       \<and> respond_markdown U None d = R
       \<and> (trim T = [] \<longrightarrow> respond_text U m d = ''Document found, but appears empty.'')
       \<and> (trim T \<noteq> [] \<and> M \<noteq> 0 \<and> M < of_nat (length T) \<longrightarrow>
            respond_text U (Some M) d =
              ''Content (truncated to '' @ number_text (Number_toString U) M @ '' chars):''
              @ [NL] @ ''---'' @ [NL] @ take (nat \<lfloor>M\<rfloor>) T @ [NL, NL] @ ''...'')
       \<and> (trim T \<noteq> [] \<and> (M = 0 \<or> of_nat (length T) \<le> M) \<longrightarrow>
            respond_text U (Some M) d =
              ''Content ('' @ decimal (length T) @ '' characters):'' @ [NL] @ ''---''
              @ [NL] @ T)
       \<and> (trim T \<noteq> [] \<longrightarrow>
            respond_text U None d =
              ''Content ('' @ decimal (length T) @ '' characters):'' @ [NL] @ ''---''
              @ [NL] @ T)
       \<and> (safe_integer M \<and> 0 \<le> M \<longrightarrow>
            number_text (Number_toString U) M = decimal (nat \<lfloor>M\<rfloor>)
            \<and> of_nat (nat \<lfloor>M\<rfloor>) = M)"
proof -
  have whole: "safe_integer M \<and> 0 \<le> M \<longrightarrow>
            number_text (Number_toString U) M = decimal (nat \<lfloor>M\<rfloor>)
            \<and> of_nat (nat \<lfloor>M\<rfloor>) = M"
  proof
    assume a: "safe_integer M \<and> 0 \<le> M"
    then have "of_int \<lfloor>M\<rfloor> = M" by (simp add: safe_integer_def)
    moreover from a have "0 \<le> \<lfloor>M\<rfloor>" by simp
    ultimately have "of_nat (nat \<lfloor>M\<rfloor>) = M"
      by (metis of_int_of_nat_eq int_nat_eq)
    with a show "number_text (Number_toString U) M = decimal (nat \<lfloor>M\<rfloor>)
            \<and> of_nat (nat \<lfloor>M\<rfloor>) = M"
      by (simp add: number_text_def)
  qed
  have rest: "(M \<noteq> 0 \<and> M < of_nat (length R) \<longrightarrow>
            respond_markdown U (Some M) d =
              take (nat \<lfloor>M\<rfloor>) R @ [NL, NL] @ ''... [Markdown truncated to ''
              @ number_text (Number_toString U) M @ '' chars of '' @ decimal (length R)
              @ '' total.]'')
       \<and> (M = 0 \<or> of_nat (length R) \<le> M \<longrightarrow> respond_markdown U (Some M) d = R)
       \<and> respond_markdown U None d = R
       \<and> (trim T = [] \<longrightarrow> respond_text U m d = ''Document found, but appears empty.'')
       \<and> (trim T \<noteq> [] \<and> M \<noteq> 0 \<and> M < of_nat (length T) \<longrightarrow>
            respond_text U (Some M) d =
              ''Content (truncated to '' @ number_text (Number_toString U) M @ '' chars):''
              @ [NL] @ ''---'' @ [NL] @ take (nat \<lfloor>M\<rfloor>) T @ [NL, NL] @ ''...'')
       \<and> (trim T \<noteq> [] \<and> (M = 0 \<or> of_nat (length T) \<le> M) \<longrightarrow>
            respond_text U (Some M) d =
              ''Content ('' @ decimal (length T) @ '' characters):'' @ [NL] @ ''---''
              @ [NL] @ T)
       \<and> (trim T \<noteq> [] \<longrightarrow>
            respond_text U None d =
              ''Content ('' @ decimal (length T) @ '' characters):'' @ [NL] @ ''---''
              @ [NL] @ T)"
    using R T
    by (auto simp: respond_markdown_def respond_text_def exceeds_def substring0_def
        limit_of_def Let_def)
  from rest whole show ?thesis by blast
qed

text \<open>
  The six characters \<open>abcdef\<close> cut to 2, to 2.5 and to 6; and the blank document,
  whose text is blank while its Markdown is the rule \<open>---\<close>, cut to 2.
\<close>

theorem truncation_of_rendered_output_witness:
  "respond_markdown (refusing_upstream None []) (Some 2) (document_of [plain_paragraph ''abcdef'']) =
     ''ab'' @ [NL, NL] @ ''... [Markdown truncated to 2 chars of 6 total.]''
   \<and> respond_markdown (refusing_upstream None []) (Some (5 / 2))
       (document_of [plain_paragraph ''abcdef'']) =
     ''ab'' @ [NL, NL] @ ''... [Markdown truncated to 2.5 chars of 6 total.]''
   \<and> respond_markdown (refusing_upstream None []) (Some 6) (document_of [plain_paragraph ''abcdef''])
     = ''abcdef''
   \<and> respond_markdown (refusing_upstream None []) (Some 2)
       (document_of [StructuralElement None None True, plain_paragraph [NL]]) =
     ''--'' @ [NL, NL] @ ''... [Markdown truncated to 2 chars of 3 total.]''
   \<and> respond_text (refusing_upstream None []) (Some 2)
       (document_of [StructuralElement None None True, plain_paragraph [NL]]) =
     ''Document found, but appears empty.''
   \<and> respond_text (refusing_upstream None []) (Some 2) (document_of [plain_paragraph ''abcdef'']) =
     ''Content (truncated to 2 chars):'' @ [NL] @ ''---'' @ [NL] @ ''ab'' @ [NL, NL] @ ''...''
   \<and> respond_text (refusing_upstream None []) (Some 6) (document_of [plain_paragraph ''abcdef'']) =
     ''Content (6 characters):'' @ [NL] @ ''---'' @ [NL] @ ''abcdef''"
proof -
  let ?U = "refusing_upstream None []"
  let ?d = "document_of [plain_paragraph ''abcdef'']"
  let ?b = "document_of [StructuralElement None None True, plain_paragraph [NL]]"
  have nonblank: "trim ''abcdef'' \<noteq> []"
    by (simp add: trim_def is_space_def)
  have blank: "trim [NL] = []"
    by (simp add: trim_def is_space_def NL_def)
  have half: "\<lfloor>5 / 2 :: rat\<rfloor> = 2"
    by (simp add: floor_eq_iff)
  have fl: "nat \<lfloor>5 / 2 :: rat\<rfloor> = 2"
    by (simp add: half)
  have nums: "number_text (Number_toString ?U) 2 = ''2''"
    "number_text (Number_toString ?U) (5 / 2) = ''2.5''" "decimal 6 = ''6''" "decimal 3 = ''3''"
    by (simp_all add: number_text_def safe_integer_def half decimal.simps digit_def
        refusing_upstream_def)
  have len: "length ''abcdef'' = 6" "length ''---'' = 3"
    by simp_all
  note t = truncation_of_rendered_output [of "''abcdef''" ?d "''abcdef''", unfolded render_abcdef
      text_abcdef, OF refl refl]
  note u = truncation_of_rendered_output [of "''---''" ?b "[NL]", unfolded render_blank
      text_blank, OF refl refl]
  show ?thesis
    using t [of 2 ?U] t [of "5 / 2" ?U] t [of 6 ?U] u [of 2 ?U "Some 2"]
    by (simp add: nums len fl nonblank blank del: length_Cons list.size)
qed

text \<open>
  The claim as stated fails on the six characters \<open>abcdef\<close> cut to two: the Markdown
  suffix names 2 and 6 and nowhere the 4 elided characters; the text answer names
  neither the elided count nor the total; a maximum equal to the length returns the text
  under a header, not unchanged; and a maximum of 0 cuts nothing.
\<close>

theorem truncation_suffix_counterexample:
  "respond_markdown (refusing_upstream None []) (Some 2) (document_of [plain_paragraph ''abcdef'']) =
     ''ab'' @ [NL, NL] @ ''... [Markdown truncated to 2 chars of 6 total.]''
   \<and> CHR ''4'' \<notin> set (respond_markdown (refusing_upstream None []) (Some 2)
                         (document_of [plain_paragraph ''abcdef'']))
   \<and> respond_text (refusing_upstream None []) (Some 2) (document_of [plain_paragraph ''abcdef'']) =
     ''Content (truncated to 2 chars):'' @ [NL] @ ''---'' @ [NL] @ ''ab'' @ [NL, NL] @ ''...''
   \<and> respond_text (refusing_upstream None []) (Some 6) (document_of [plain_paragraph ''abcdef''])
     \<noteq> ''abcdef''
   \<and> respond_markdown (refusing_upstream None []) (Some 0) (document_of [plain_paragraph ''abcdef''])
     = ''abcdef''"
  by (simp add: respond_markdown_def respond_text_def render_abcdef text_abcdef exceeds_def
      substring0_def limit_of_def number_text_def safe_integer_def decimal.simps digit_def
      trim_def is_space_def NL_def)

text \<open>
  C5: the Markdown renderer gives its sentinel only when \<open>body.content\<close> is missing. A
  body whose content is the empty list, or one blank paragraph, renders as the empty
  string, and the blank document as the API returns it (a section break and the
  paragraph of one line feed) renders as \<open>---\<close>; the text format answers its sentinel
  for the same documents.
\<close>

theorem markdown_of_blank_document:
  "convertDocsJsonToMarkdown (document_of []) = []
   \<and> convertDocsJsonToMarkdown (document_of [plain_paragraph [NL]]) = []
   \<and> convertDocsJsonToMarkdown
       (document_of [StructuralElement None None True, plain_paragraph [NL]]) = ''---''
   \<and> respond_text U None (document_of [StructuralElement None None True, plain_paragraph [NL]])
       = ''Document found, but appears empty.''
   \<and> respond_text U None (document_of []) = ''Document found, but appears empty.''"
  by (simp add: convertDocsJsonToMarkdown_def document_of_def plain_paragraph_def
      plain_run_def doc_element_step_def convertParagraphToMarkdown_def heading_of_def
      paragraph_text_def convertTextRunToMarkdown_def trim_def is_space_def NL_def
      respond_text_def document_text_def text_element_step_def text_paragraph_step_def
      text_run_step_def)

text \<open>
  C1 (as amended): when both injected values are set and one of them does not parse,
  the failure is logged and the loader goes on to the two local files. Resolution then
  yields exactly the client that the files alone would give; only when the files give
  none does it fail, with the error of the managed environment, and the world is left
  as it was.
\<close>

theorem injected_parse_failure_falls_back_to_files:
  assumes "env_set (GOOGLE_CREDENTIALS w)" and "env_set (GOOGLE_TOKEN w)"
    and "JSON_parse P (env_text (GOOGLE_CREDENTIALS w)) = None
         \<or> JSON_parse P (env_text (GOOGLE_TOKEN w)) = None"
  shows "loadCredentialsFromEnvOrFile P w = load_from_files P w
       \<and> authorize P w =
           (case loadSavedCredentialsIfExist P
                   (w\<lparr>GOOGLE_CREDENTIALS := None, GOOGLE_TOKEN := None\<rparr>) of
              Some client \<Rightarrow> (Inr client, w)
            | None \<Rightarrow> (Inl managed_error, w))"
proof -
  have pp: "parse_pair P (env_text (GOOGLE_CREDENTIALS w)) (env_text (GOOGLE_TOKEN w)) = None"
    using assms(3) by (auto simp: parse_pair_def split: option.splits)
  have load: "loadCredentialsFromEnvOrFile P w = load_from_files P w"
    using assms(1,2) pp by (simp add: loadCredentialsFromEnvOrFile_def)
  have saved: "loadSavedCredentialsIfExist P w =
                 loadSavedCredentialsIfExist P (w\<lparr>GOOGLE_CREDENTIALS := None, GOOGLE_TOKEN := None\<rparr>)"
    by (simp add: loadSavedCredentialsIfExist_def load load_without_env)
  show ?thesis
    using assms(1) load
    by (simp add: authorize_def saved [symmetric] managed_error_def split: option.splits)
qed

theorem injected_parse_failure_falls_back_to_files_witness:
  "authorize example_platform corrupt_world = (Inr file_client, corrupt_world)
   \<and> loadCredentialsFromEnvOrFile example_platform corrupt_world
       = load_from_files example_platform corrupt_world"
proof -
  have a: "env_set (GOOGLE_CREDENTIALS corrupt_world)" "env_set (GOOGLE_TOKEN corrupt_world)"
    by (simp_all add: env_set_def corrupt_world_def)
  have b: "JSON_parse example_platform (env_text (GOOGLE_CREDENTIALS corrupt_world)) = None
         \<or> JSON_parse example_platform (env_text (GOOGLE_TOKEN corrupt_world)) = None"
    by (simp add: example_platform_def example_parse_def env_text_def corrupt_world_def)
  have c: "loadSavedCredentialsIfExist example_platform
             (corrupt_world\<lparr>GOOGLE_CREDENTIALS := None, GOOGLE_TOKEN := None\<rparr>) = Some file_client"
    by (simp add: loadSavedCredentialsIfExist_def loadCredentialsFromEnvOrFile_def
      load_from_files_def parse_pair_def env_set_def env_text_def example_platform_def
      corrupt_world_def example_parse_def client_key_def get_prop_def truthy_def key_prop_def
      js_or_def optional_index0_def file_client_def)
  show ?thesis
    using injected_parse_failure_falls_back_to_files [OF a b] by (simp add: c)
qed

text \<open>
  The claim as stated fails where the injected token is cut off while both files hold
  well-formed values: resolution succeeds, with the client built from the files.
\<close>

theorem corrupt_injected_token_counterexample:
  "env_set (GOOGLE_CREDENTIALS corrupt_world) \<and> env_set (GOOGLE_TOKEN corrupt_world)
   \<and> JSON_parse example_platform (env_text (GOOGLE_TOKEN corrupt_world)) = None
   \<and> fst (authorize example_platform corrupt_world) = Inr file_client"
  by (simp add: authorize_corrupt_world)
     (simp add: env_set_def env_text_def corrupt_world_def example_platform_def
        example_parse_def)

text \<open>
  C8: when \<open>GOOGLE_CREDENTIALS\<close> is set (to a non-empty value), resolution never asks
  on the terminal and changes nothing; if no saved credentials load, it fails with the
  error of the managed environment; and the interactive routine itself refuses to run.
\<close>

theorem no_interactive_authorization_when_managed:
  assumes "env_set (GOOGLE_CREDENTIALS w)"
  shows "snd (authorize P w) = w
       \<and> questions (snd (authorize P w)) = questions w
       \<and> (loadSavedCredentialsIfExist P w = None \<longrightarrow> fst (authorize P w) = Inl managed_error)
       \<and> authenticate P w =
           (Inl (Error ''Cannot run interactive authentication in Cloud Run environment.''), w)"
  using assms
  by (simp add: authorize_def authenticate_def managed_error_def split: option.splits)

theorem no_interactive_authorization_when_managed_witness:
  "authorize example_platform managed_world = (Inl managed_error, managed_world)"
proof -
  have a: "env_set (GOOGLE_CREDENTIALS managed_world)"
    by (simp add: env_set_def managed_world_def)
  have b: "loadSavedCredentialsIfExist example_platform managed_world = None"
    by (simp add: loadSavedCredentialsIfExist_def loadCredentialsFromEnvOrFile_def
        load_from_files_def env_set_def managed_world_def)
  show ?thesis
    using no_interactive_authorization_when_managed [OF a, of example_platform] b
    by (simp add: prod_eq_iff)
qed

text \<open>
  C9: in both servers, once a call has returned the clients, every later call returns
  the same clients and leaves the module state and the world untouched, whatever the
  credential sources hold by then. A failed call of the streaming server leaves all
  three module variables \<open>null\<close>, a failed call of the REST wrapper leaves them as
  they were with nothing cached (all \<open>null\<close>, in every state the initializers can
  leave behind), and the next call resolves the credentials anew.
\<close>

theorem client_handle_is_cached:
  "(initializeGoogleClient_http P (s, w) = (Inr h, s', w') \<longrightarrow>
      later_calls initializeGoogleClient_http calls s' = (map (\<lambda>pw. (Inr h, snd pw)) calls, s'))
   \<and> (initializeGoogleClient_http P (s, w) = (Inl e, s', w') \<longrightarrow>
      s' = no_clients \<and> initializeGoogleClient_http P2 (s', w2) = resolve_http P2 w2)
   \<and> (initializeGoogleClient_rest P (s, w) = (Inr h, s', w') \<longrightarrow>
      later_calls initializeGoogleClient_rest calls s' = (map (\<lambda>pw. (Inr h, snd pw)) calls, s'))
   \<and> (initializeGoogleClient_rest P (s, w) = (Inl e, s', w') \<longrightarrow>
      s' = s \<and> cached_clients s' = None \<and> (consistent s \<longrightarrow> s' = no_clients)
      \<and> initializeGoogleClient_rest P2 (s', w2) = resolve_rest P2 s' w2)"
proof (intro conjI impI)
  assume a: "initializeGoogleClient_http P (s, w) = (Inr h, s', w')"
  show "later_calls initializeGoogleClient_http calls s' = (map (\<lambda>pw. (Inr h, snd pw)) calls, s')"
    by (rule later_calls_cached_http [OF http_success_caches [OF a]])
next
  assume a: "initializeGoogleClient_http P (s, w) = (Inl e, s', w')"
  from http_failure_clears [OF a] show "s' = no_clients" by simp
  then show "initializeGoogleClient_http P2 (s', w2) = resolve_http P2 w2"
    by (simp add: http_from_no_clients)
next
  assume a: "initializeGoogleClient_rest P (s, w) = (Inr h, s', w')"
  show "later_calls initializeGoogleClient_rest calls s' = (map (\<lambda>pw. (Inr h, snd pw)) calls, s')"
    by (rule later_calls_cached_rest [OF rest_success_caches [OF a]])
next
  assume a: "initializeGoogleClient_rest P (s, w) = (Inl e, s', w')"
  from rest_failure_keeps [OF a] show same: "s' = s" and c: "cached_clients s' = None"
    by simp_all
  show "initializeGoogleClient_rest P2 (s', w2) = resolve_rest P2 s' w2"
    by (rule rest_without_cache [OF c])
  assume "consistent s"
  with same c show "s' = no_clients"
    by (simp add: consistent_uncached)
qed

text \<open>
  From nothing cached: the local files resolve, the managed world without a token does
  not; with the clients cached, a call made in the managed world still returns them.
\<close>

theorem client_handle_is_cached_witness:
  "initializeGoogleClient_http example_platform (no_clients, local_world) =
     (Inr (Some file_client, Docs file_client, Drive file_client), all_clients file_client,
      local_world)
   \<and> later_calls initializeGoogleClient_http [(example_platform, managed_world)]
        (all_clients file_client) =
       ([(Inr (Some file_client, Docs file_client, Drive file_client), managed_world)],
        all_clients file_client)
   \<and> initializeGoogleClient_http example_platform (no_clients, managed_world) =
       (Inl http_init_error, no_clients, managed_world)
   \<and> initializeGoogleClient_http example_platform (no_clients, local_world) =
       resolve_http example_platform local_world
   \<and> initializeGoogleClient_rest example_platform (no_clients, local_world) =
       (Inr (Some file_client, Docs file_client, Drive file_client), all_clients file_client,
        local_world)
   \<and> later_calls initializeGoogleClient_rest [(example_platform, managed_world)]
        (all_clients file_client) =
       ([(Inr (Some file_client, Docs file_client, Drive file_client), managed_world)],
        all_clients file_client)
   \<and> initializeGoogleClient_rest example_platform (no_clients, managed_world) =
       (Inl managed_error, no_clients, managed_world)
   \<and> initializeGoogleClient_rest example_platform (no_clients, local_world) =
       resolve_rest example_platform no_clients local_world"
proof -
  let ?h = "(Some file_client, Docs file_client, Drive file_client)"
  have none: "cached_clients no_clients = None"
    by (simp add: cached_clients_def no_clients_def)
  have ok_http: "initializeGoogleClient_http example_platform (no_clients, local_world) =
                   (Inr ?h, all_clients file_client, local_world)"
    by (simp add: http_from_no_clients resolve_http_def authorize_local_world)
  have bad_http: "initializeGoogleClient_http example_platform (no_clients, managed_world) =
                    (Inl http_init_error, no_clients, managed_world)"
    by (simp add: http_from_no_clients resolve_http_def authorize_managed_world)
  have ok_rest: "initializeGoogleClient_rest example_platform (no_clients, local_world) =
                   (Inr ?h, all_clients file_client, local_world)"
    by (simp add: rest_without_cache [OF none] resolve_rest_def authorize_local_world)
  have bad_rest: "initializeGoogleClient_rest example_platform (no_clients, managed_world) =
                    (Inl managed_error, no_clients, managed_world)"
    by (simp add: rest_without_cache [OF none] resolve_rest_def authorize_managed_world)
  note hit = client_handle_is_cached [of example_platform no_clients local_world ?h
      "all_clients file_client" local_world "[(example_platform, managed_world)]"]
  note miss_http = client_handle_is_cached [of example_platform no_clients managed_world _
      no_clients managed_world _ http_init_error example_platform local_world]
  note miss_rest = client_handle_is_cached [of example_platform no_clients managed_world _
      no_clients managed_world _ managed_error example_platform local_world]
  show ?thesis
    using hit miss_http miss_rest
    by (simp add: ok_http bad_http ok_rest bad_rest)
qed

text \<open>
  C2 (as amended): the generic endpoint has no error kind; the missing title is
  reported by status and message. \<open>createDocument\<close> called without a title (or with
  one that counts as false), with the client initialised, is answered with status 500,
  \<open>success\<close> false and the message \<open>Failed to create document: title is required\<close>,
  which names the field, whatever the upstream would do.
\<close>

theorem missing_title_is_reported:
  assumes "key_prop reqBody ''toolName'' = Some (JStr ''createDocument'')"
    and "\<not> truthy (arg (tool_args reqBody) ''title'')"
    and "initializeGoogleClient_rest P sw = (Inr h, sw')"
  shows "mcp_call P U reqBody sw =
           (Inr \<lparr>status = 500, success = False, data = None,
                 error = Some ''Failed to create document: title is required''\<rparr>, sw')"
proof -
  obtain c docs drv where h: "h = (c, docs, drv)" by (cases h)
  have "execute U h CreateDocument (tool_args reqBody) =
          Inl (Error ''Failed to create document: title is required'')"
    using assms(2) by (simp add: execute_def h createDocument_without_title)
  then show ?thesis
    using mcp_call_tool [OF assms(1) _ tools_own(4) assms(3), of U]
    by (simp add: message_of_def failure_def)
qed

text \<open>An empty argument bag for \<open>createDocument\<close>.\<close>

theorem missing_title_is_reported_witness:
  "mcp_call example_platform (refusing_upstream None []) (call_body ''createDocument'' (JObj []))
     (all_clients file_client, local_world) =
   (Inr \<lparr>status = 500, success = False, data = None,
         error = Some ''Failed to create document: title is required''\<rparr>,
    all_clients file_client, local_world)"
proof -
  have a: "key_prop (call_body ''createDocument'' (JObj [])) ''toolName''
             = Some (JStr ''createDocument'')"
    by (simp add: call_body_def key_prop_def get_prop_def)
  have b: "\<not> truthy (arg (tool_args (call_body ''createDocument'' (JObj []))) ''title'')"
    by (simp add: call_body_def tool_args_def key_prop_def get_prop_def truthy_def arg_def
        with_default_def)
  show ?thesis
    using missing_title_is_reported [OF a b init_ready] by simp
qed

text \<open>
  The claim as stated fails for its own example: the answer to \<open>createDocument\<close>
  without a title carries no kind, only status 500 and a message, and it is the very
  answer that a call with a title gets when the upstream refuses with that message.
\<close>

theorem invalid_argument_not_told_apart_counterexample:
  "fst (mcp_call example_platform (refusing_upstream None ''title is required'')
         (call_body ''createDocument'' (JObj []))
         (all_clients file_client, local_world)) =
     Inr \<lparr>status = 500, success = False, data = None,
          error = Some ''Failed to create document: title is required''\<rparr>
   \<and> fst (mcp_call example_platform (refusing_upstream None ''title is required'')
         (call_body ''createDocument'' (JObj [(''title'', JStr ''Notes'')]))
         (all_clients file_client, local_world)) =
     fst (mcp_call example_platform (refusing_upstream None ''title is required'')
         (call_body ''createDocument'' (JObj []))
         (all_clients file_client, local_world))"
proof -
  let ?U = "refusing_upstream None ''title is required''"
  let ?sw = "(all_clients file_client, local_world)"
  let ?h = "(Some file_client, Docs file_client, Drive file_client)"
  have name: "\<And>args. key_prop (call_body ''createDocument'' args) ''toolName''
                 = Some (JStr ''createDocument'')"
    by (simp add: call_body_def key_prop_def get_prop_def)
  have without: "execute ?U ?h CreateDocument (tool_args (call_body ''createDocument'' (JObj [])))
                   = Inl (Error ''Failed to create document: title is required'')"
    by (simp add: execute_def createDocument_def call_body_def tool_args_def key_prop_def
        get_prop_def truthy_def arg_def with_default_def)
  have with_title: "execute ?U ?h CreateDocument
                      (tool_args (call_body ''createDocument'' (JObj [(''title'', JStr ''Notes'')])))
                   = Inl (Error ''Failed to create document: title is required'')"
    by (simp add: execute_def createDocument_def call_body_def tool_args_def key_prop_def
        get_prop_def truthy_def arg_def with_default_def refusing_upstream_def
        template_str_def)
  show ?thesis
    using mcp_call_tool [OF name [of "JObj []"] _ tools_own(4)
        init_ready [where P = example_platform and c = file_client and w = local_world],
        where U = ?U]
      mcp_call_tool [OF name [of "JObj [(''title'', JStr ''Notes'')]"] _ tools_own(4)
        init_ready [where P = example_platform and c = file_client and w = local_world],
        where U = ?U]
    by (simp add: without with_title message_of_def failure_def)
qed

text \<open>
  C4 (as amended): neither server has an error kind; what tells failures apart is the
  message, and in the REST wrapper the status. In the streaming server's
  \<open>readGoogleDoc\<close>, an upstream error with code 404 is thrown on as the user error
  \<open>Doc not found\<close>, one with code 403 as \<open>Permission denied\<close>, any other as
  \<open>Failed to read doc:\<close> with the upstream message, or \<open>Unknown error\<close> when there
  is none. In the REST wrapper's generic endpoint every failure of a tool is caught and
  answered with status 500 and the thrown message, and an upstream failure of
  \<open>readGoogleDoc\<close> gives the same message whatever its code.
\<close>

theorem handler_failures_are_reported:
  "(initializeGoogleClient_http P sw = (Inr (a, docs, drive), sw')
      \<and> documents_get U docs (Some (JStr (documentId args)))
            (Some (read_fields (format args))) = Inl e \<longrightarrow>
    readGoogleDoc_execute P U args sw =
      (Inl (UserError
             (if err_code e = Some (JNum 404)
              then ''Doc not found (ID: '' @ documentId args @ '').''
              else if err_code e = Some (JNum 403)
              then ''Permission denied for doc (ID: '' @ documentId args @ '').''
              else ''Failed to read doc: '' @ message_or_unknown e)), sw'))
   \<and> (key_prop reqBody ''toolName'' = Some (JStr name) \<and> name \<noteq> []
      \<and> tools name = Some (Some t)
      \<and> initializeGoogleClient_rest P sw = (Inr h, sw')
      \<and> execute U h t (tool_args reqBody) = Inl x \<longrightarrow>
    mcp_call P U reqBody sw = (Inr (failure 500 (message_of x)), sw'))
   \<and> (documents_get U docs (arg jargs ''documentId'') None = Inl e \<longrightarrow>
    readGoogleDoc U docs jargs =
      Inl (Error (''Failed to read document: '' @ template_str (err_message e))))"
proof (intro conjI impI)
  assume "initializeGoogleClient_http P sw = (Inr (a, docs, drive), sw')
      \<and> documents_get U docs (Some (JStr (documentId args)))
            (Some (read_fields (format args))) = Inl e"
  then show "readGoogleDoc_execute P U args sw =
      (Inl (UserError
             (if err_code e = Some (JNum 404)
              then ''Doc not found (ID: '' @ documentId args @ '').''
              else if err_code e = Some (JNum 403)
              then ''Permission denied for doc (ID: '' @ documentId args @ '').''
              else ''Failed to read doc: '' @ message_or_unknown e)), sw')"
    by (simp add: readGoogleDoc_execute_def readGoogleDoc_catch_def)
next
  assume a: "key_prop reqBody ''toolName'' = Some (JStr name) \<and> name \<noteq> []
      \<and> tools name = Some (Some t)
      \<and> initializeGoogleClient_rest P sw = (Inr h, sw')
      \<and> execute U h t (tool_args reqBody) = Inl x"
  then have n: "key_prop reqBody ''toolName'' = Some (JStr name)" "name \<noteq> []"
    and t: "tools name = Some (Some t)"
    and i: "initializeGoogleClient_rest P sw = (Inr h, sw')"
    and x: "execute U h t (tool_args reqBody) = Inl x"
    by simp_all
  show "mcp_call P U reqBody sw = (Inr (failure 500 (message_of x)), sw')"
    using mcp_call_tool [OF n t i, of U] by (simp add: x)
next
  assume "documents_get U docs (arg jargs ''documentId'') None = Inl e"
  then show "readGoogleDoc U docs jargs =
      Inl (Error (''Failed to read document: '' @ template_str (err_message e)))"
    by (rule readGoogleDoc_failure)
qed

theorem handler_failures_are_reported_witness:
  "readGoogleDoc_execute example_platform (refusing_upstream (Some (JNum 403)) ''denied'')
     (read_args ''doc1'') (all_clients file_client, local_world) =
   (Inl (UserError ''Permission denied for doc (ID: doc1).''),
    all_clients file_client, local_world)
   \<and> mcp_call example_platform (refusing_upstream (Some (JNum 403)) ''denied'')
       (call_body ''readGoogleDoc'' (JObj [(''documentId'', JStr ''doc1'')]))
       (all_clients file_client, local_world) =
     (Inr (failure 500 ''Failed to read document: denied''), all_clients file_client,
      local_world)
   \<and> readGoogleDoc (refusing_upstream (Some (JNum 403)) ''denied'') (Docs file_client)
       (JObj [(''documentId'', JStr ''doc1'')]) =
     Inl (Error ''Failed to read document: denied'')"
proof -
  let ?U = "refusing_upstream (Some (JNum 403)) ''denied''"
  let ?b = "call_body ''readGoogleDoc'' (JObj [(''documentId'', JStr ''doc1'')])"
  let ?sw = "(all_clients file_client, local_world)"
  have get: "\<And>i f. documents_get ?U (Docs file_client) i f =
               Inl \<lparr>err_code = Some (JNum 403), err_message = Some ''denied''\<rparr>"
    by (simp add: refusing_upstream_def)
  have name: "key_prop ?b ''toolName'' = Some (JStr ''readGoogleDoc'')"
    by (simp add: call_body_def key_prop_def get_prop_def)
  have ex: "execute ?U (Some file_client, Docs file_client, Drive file_client) ReadGoogleDoc
          (tool_args ?b) = Inl (Error ''Failed to read document: denied'')"
    by (simp add: execute_def readGoogleDoc_def get template_str_def)
  note t = handler_failures_are_reported [of example_platform ?sw "Some file_client"
      "Docs file_client" "Drive file_client" ?sw ?U "read_args ''doc1''"
      "\<lparr>err_code = Some (JNum 403), err_message = Some ''denied''\<rparr>" ?b "''readGoogleDoc''"
      ReadGoogleDoc "(Some file_client, Docs file_client, Drive file_client)"
      "Error ''Failed to read document: denied''" "JObj [(''documentId'', JStr ''doc1'')]"]
  show ?thesis
    using t
    by (simp add: init_ready init_ready_http get name ex tools_own read_args_def message_of_def
        template_str_def)
qed

text \<open>
  The claim as stated fails in the REST wrapper: an upstream refusal with code 403 is
  answered exactly as one with code 500, and one with code 404 exactly as one without a
  code, all with status 500.
\<close>

theorem permission_denial_not_classified_counterexample:
  "fst (mcp_call example_platform
         (refusing_upstream (Some (JNum 403)) ''The caller does not have permission'')
         (call_body ''readGoogleDoc'' (JObj [(''documentId'', JStr ''doc1'')]))
         (all_clients file_client, local_world)) =
     Inr (failure 500 ''Failed to read document: The caller does not have permission'')
   \<and> fst (mcp_call example_platform
         (refusing_upstream (Some (JNum 403)) ''The caller does not have permission'')
         (call_body ''readGoogleDoc'' (JObj [(''documentId'', JStr ''doc1'')]))
         (all_clients file_client, local_world)) =
     fst (mcp_call example_platform
         (refusing_upstream (Some (JNum 500)) ''The caller does not have permission'')
         (call_body ''readGoogleDoc'' (JObj [(''documentId'', JStr ''doc1'')]))
         (all_clients file_client, local_world))
   \<and> fst (mcp_call example_platform
         (refusing_upstream (Some (JNum 404)) ''The caller does not have permission'')
         (call_body ''readGoogleDoc'' (JObj [(''documentId'', JStr ''doc1'')]))
         (all_clients file_client, local_world)) =
     fst (mcp_call example_platform
         (refusing_upstream None ''The caller does not have permission'')
         (call_body ''readGoogleDoc'' (JObj [(''documentId'', JStr ''doc1'')]))
         (all_clients file_client, local_world))"
  by (simp add: read_call_refused)

end
